theory Spec2Isabelle
  imports Main
begin

section \<open>A minimal HTTP file server: the per-connection pipeline\<close>

text \<open>
  The repository holds two variants of one server class, \<^verbatim>\<open>SimpleWebServer\<close>:
  the minimal one (\<^verbatim>\<open>src/server.py\<close>, suffix \<open>_v1\<close> below) and an extended one
  with percent-decoding, directory listings and download headers (the second file
  of \<^verbatim>\<open>src/\<close>, suffix \<open>_v2\<close>). Both define \<^verbatim>\<open>handle_client\<close> and
  \<^verbatim>\<open>create_response\<close>; the suffix tells them apart.

  Python's \<^verbatim>\<open>str\<close> is a sequence of code points and \<^verbatim>\<open>bytes\<close> a sequence
  of octets. The two are kept apart: a \<open>pystr\<close> is a list of code points (natural
  numbers), a \<open>bytes\<close> value is a list of 8-bit characters. \<^verbatim>\<open>len\<close> of a
  \<open>pystr\<close> counts code points, \<^verbatim>\<open>len\<close> of \<open>bytes\<close> counts octets.
\<close>

type_synonym pystr = "nat list"
type_synonym bytes = "char list"

abbreviation ascii :: "string \<Rightarrow> pystr" where
  "ascii s \<equiv> map of_char s"

subsection \<open>String operations of the Python runtime\<close>

definition startswith :: "'a list \<Rightarrow> 'a list \<Rightarrow> bool" where
  "startswith s p = (take (length p) s = p)"

definition endswith :: "'a list \<Rightarrow> 'a list \<Rightarrow> bool" where
  "endswith s p = (length p \<le> length s \<and> drop (length s - length p) s = p)"

text \<open>\<^verbatim>\<open>path.lstrip('/')\<close>: every leading occurrence of the character is removed.\<close>

definition lstrip :: "nat \<Rightarrow> pystr \<Rightarrow> pystr" where
  "lstrip c s = dropWhile (\<lambda>x. x = c) s"

text \<open>\<^verbatim>\<open>sep.join(parts)\<close>.\<close>

fun str_join :: "'a list \<Rightarrow> 'a list list \<Rightarrow> 'a list" where
  "str_join sep [] = []"
| "str_join sep [x] = x"
| "str_join sep (x # y # ys) = x @ sep @ str_join sep (y # ys)"

text \<open>\<^verbatim>\<open>s.split(c)\<close> for a separator of one character: never empty, one more
  field than there are separators.\<close>

fun split_char :: "nat \<Rightarrow> pystr \<Rightarrow> pystr list" where
  "split_char sep [] = [[]]"
| "split_char sep (c # cs) =
     (if c = sep then [] # split_char sep cs
      else (case split_char sep cs of
              [] \<Rightarrow> [[c]]
            | f # fs \<Rightarrow> (c # f) # fs))"

text \<open>\<^verbatim>\<open>request_data.split('\r\n')[0]\<close>: the text before the first CR LF, the
  whole text when there is none.\<close>

fun first_line :: "pystr \<Rightarrow> pystr" where
  "first_line [] = []"
| "first_line [c] = [c]"
| "first_line (c # d # cs) =
     (if c = 13 \<and> d = 10 then [] else c # first_line (d # cs))"

text \<open>\<^verbatim>\<open>str.isspace\<close> on one code point: the characters \<^verbatim>\<open>str.split()\<close>
  treats as separators.\<close>

definition isspace :: "nat \<Rightarrow> bool" where
  "isspace c =
     ((9 \<le> c \<and> c \<le> 13) \<or> (28 \<le> c \<and> c \<le> 32) \<or> c = 0x85 \<or> c = 0xA0 \<or> c = 0x1680
      \<or> (0x2000 \<le> c \<and> c \<le> 0x200A) \<or> c = 0x2028 \<or> c = 0x2029 \<or> c = 0x202F
      \<or> c = 0x205F \<or> c = 0x3000)"

text \<open>\<^verbatim>\<open>request_line.split()\<close>: the maximal runs of non-space characters, in
  order; \<open>cur\<close> is the run being read.\<close>

fun split_ws :: "pystr \<Rightarrow> pystr \<Rightarrow> pystr list" where
  "split_ws cur [] = (if cur = [] then [] else [cur])"
| "split_ws cur (c # cs) =
     (if isspace c then (if cur = [] then split_ws [] cs else cur # split_ws [] cs)
      else split_ws (cur @ [c]) cs)"

definition split_whitespace :: "pystr \<Rightarrow> pystr list" where
  "split_whitespace s = split_ws [] s"

text \<open>\<^verbatim>\<open>str(n)\<close> for a non-negative integer: its decimal digits.\<close>

fun str_of_nat :: "nat \<Rightarrow> pystr" where
  "str_of_nat n = (if n < 10 then [48 + n] else str_of_nat (n div 10) @ [48 + n mod 10])"

declare str_of_nat.simps [simp del]

subsection \<open>UTF-8\<close>

text \<open>
  \<^verbatim>\<open>s.encode('utf-8')\<close>: one to four octets per code point; a surrogate
  (\<open>0xD800\<close> to \<open>0xDFFF\<close>) cannot be encoded and raises, which is the value
  \<open>None\<close>. A Python string holds no code point above \<open>0x10FFFF\<close>.
\<close>

definition utf8_encode_char :: "nat \<Rightarrow> bytes option" where
  "utf8_encode_char c =
     (if c < 0x80 then Some [char_of c]
      else if c < 0x800 then Some [char_of (0xC0 + c div 64), char_of (0x80 + c mod 64)]
      else if c < 0x10000 then
        (if 0xD800 \<le> c \<and> c < 0xE000 then None
         else Some [char_of (0xE0 + c div 4096), char_of (0x80 + c div 64 mod 64),
                    char_of (0x80 + c mod 64)])
      else if c < 0x110000 then
        Some [char_of (0xF0 + c div 262144), char_of (0x80 + c div 4096 mod 64),
              char_of (0x80 + c div 64 mod 64), char_of (0x80 + c mod 64)]
      else None)"

fun utf8_encode :: "pystr \<Rightarrow> bytes option" where
  "utf8_encode [] = Some []"
| "utf8_encode (c # cs) =
     (case utf8_encode_char c of
        None \<Rightarrow> None
      | Some bs \<Rightarrow> (case utf8_encode cs of None \<Rightarrow> None | Some r \<Rightarrow> Some (bs @ r)))"

text \<open>
  \<^verbatim>\<open>b.decode('utf-8', errors)\<close>, following CPython's decoder on the octet
  values. With \<open>replace = False\<close> (the default, \<^verbatim>\<open>errors='strict'\<close>) an
  ill-formed sequence raises \<^verbatim>\<open>UnicodeDecodeError\<close>: the value \<open>None\<close>. With
  \<open>replace = True\<close> each ill-formed range becomes one \<open>U+FFFD\<close>: an invalid
  start byte is a range of one octet, an invalid continuation byte ends the range
  before it, and a sequence cut off by the end of the data is one range.
\<close>

definition is_continuation :: "nat \<Rightarrow> bool" where
  "is_continuation b = (0x80 \<le> b \<and> b < 0xC0)"

definition emit :: "nat \<Rightarrow> pystr option \<Rightarrow> pystr option" where
  "emit c r = (case r of None \<Rightarrow> None | Some cs \<Rightarrow> Some (c # cs))"

definition ill_formed :: "bool \<Rightarrow> pystr option \<Rightarrow> pystr option" where
  "ill_formed replace r = (if replace then emit 0xFFFD r else None)"

definition unexpected_end :: "bool \<Rightarrow> pystr option" where
  "unexpected_end replace = (if replace then Some [0xFFFD] else None)"

fun utf8_decode_values :: "bool \<Rightarrow> nat list \<Rightarrow> pystr option" where
  "utf8_decode_values replace [] = Some []"
| "utf8_decode_values replace (ch # s) =
     (if ch < 0x80 then emit ch (utf8_decode_values replace s)
      else if ch < 0xC2 then ill_formed replace (utf8_decode_values replace s)
      else if ch < 0xE0 then
        (case s of
           [] \<Rightarrow> unexpected_end replace
         | ch2 # s2 \<Rightarrow>
             if \<not> is_continuation ch2 then ill_formed replace (utf8_decode_values replace s)
             else emit ((ch - 0xC0) * 64 + (ch2 - 0x80)) (utf8_decode_values replace s2))
      else if ch < 0xF0 then
        (case s of
           [] \<Rightarrow> unexpected_end replace
         | ch2 # s2 \<Rightarrow>
             if \<not> is_continuation ch2 \<or> (if ch2 < 0xA0 then ch = 0xE0 else ch = 0xED)
             then ill_formed replace (utf8_decode_values replace s)
             else (case s2 of
                     [] \<Rightarrow> unexpected_end replace
                   | ch3 # s3 \<Rightarrow>
                       if \<not> is_continuation ch3
                       then ill_formed replace (utf8_decode_values replace s2)
                       else emit ((ch - 0xE0) * 4096 + (ch2 - 0x80) * 64 + (ch3 - 0x80))
                              (utf8_decode_values replace s3)))
      else if ch < 0xF5 then
        (case s of
           [] \<Rightarrow> unexpected_end replace
         | ch2 # s2 \<Rightarrow>
             if \<not> is_continuation ch2 \<or> (if ch2 < 0x90 then ch = 0xF0 else ch = 0xF4)
             then ill_formed replace (utf8_decode_values replace s)
             else (case s2 of
                     [] \<Rightarrow> unexpected_end replace
                   | ch3 # s3 \<Rightarrow>
                       if \<not> is_continuation ch3
                       then ill_formed replace (utf8_decode_values replace s2)
                       else (case s3 of
                               [] \<Rightarrow> unexpected_end replace
                             | ch4 # s4 \<Rightarrow>
                                 if \<not> is_continuation ch4
                                 then ill_formed replace (utf8_decode_values replace s3)
                                 else emit ((ch - 0xF0) * 262144 + (ch2 - 0x80) * 4096
                                            + (ch3 - 0x80) * 64 + (ch4 - 0x80))
                                        (utf8_decode_values replace s4))))
      else ill_formed replace (utf8_decode_values replace s))"

definition utf8_decode :: "bool \<Rightarrow> bytes \<Rightarrow> pystr option" where
  "utf8_decode replace b = utf8_decode_values replace (map of_char b)"

subsection \<open>\<^verbatim>\<open>urllib.parse.unquote\<close>\<close>

text \<open>
  \<^verbatim>\<open>unquote(string)\<close> returns a string without \<^verbatim>\<open>%\<close> as it is. Otherwise
  every maximal run of ASCII characters has its \<^verbatim>\<open>%XX\<close> escapes (two
  hexadecimal digits) replaced by the octet they name, an escape that is not
  well-formed staying as it is, and the octets of the run are decoded as UTF-8 with
  \<^verbatim>\<open>errors='replace'\<close>; characters outside ASCII are copied.
\<close>

definition is_hexdig :: "nat \<Rightarrow> bool" where
  "is_hexdig c = ((48 \<le> c \<and> c \<le> 57) \<or> (65 \<le> c \<and> c \<le> 70) \<or> (97 \<le> c \<and> c \<le> 102))"

definition hex_value :: "nat \<Rightarrow> nat" where
  "hex_value c = (if c \<le> 57 then c - 48 else if c \<le> 70 then c - 55 else c - 87)"

fun unquote_to_bytes :: "pystr \<Rightarrow> nat list" where
  "unquote_to_bytes [] = []"
| "unquote_to_bytes (c # cs) =
     (if c = 37 then
        (case cs of
           h1 # h2 # rest \<Rightarrow>
             if is_hexdig h1 \<and> is_hexdig h2
             then (16 * hex_value h1 + hex_value h2) # unquote_to_bytes rest
             else 37 # unquote_to_bytes cs
         | _ \<Rightarrow> 37 # unquote_to_bytes cs)
      else c # unquote_to_bytes cs)"

text \<open>Decoding with \<^verbatim>\<open>errors='replace'\<close> never raises (\<open>decode_replace_total\<close>
  below), so the \<open>None\<close> branch is never taken.\<close>

definition unquote_ascii :: "pystr \<Rightarrow> pystr" where
  "unquote_ascii run =
     (case utf8_decode_values True (unquote_to_bytes run) of None \<Rightarrow> [] | Some s \<Rightarrow> s)"

fun unquote_parts :: "pystr \<Rightarrow> pystr \<Rightarrow> pystr" where
  "unquote_parts run [] = unquote_ascii run"
| "unquote_parts run (c # cs) =
     (if c < 0x80 then unquote_parts (run @ [c]) cs
      else unquote_ascii run @ c # unquote_parts [] cs)"

definition unquote :: "pystr \<Rightarrow> pystr" where
  "unquote s = (if 37 \<in> set s then unquote_parts [] s else s)"

subsection \<open>\<^verbatim>\<open>os.path\<close> on a POSIX host\<close>

text \<open>
  The path functions are those of \<^verbatim>\<open>posixpath\<close>: the separator is \<^verbatim>\<open>/\<close>
  (code point 47), there are no drive letters, and \<^verbatim>\<open>abspath\<close> resolves
  \<^verbatim>\<open>.\<close> and \<^verbatim>\<open>..\<close> textually, without reading the file system.
\<close>

definition path_join :: "pystr \<Rightarrow> pystr \<Rightarrow> pystr" where
  "path_join a b =
     (if startswith b [47] then b
      else if a = [] \<or> endswith a [47] then a @ b
      else a @ [47] @ b)"

text \<open>One round of the loop of \<^verbatim>\<open>normpath\<close> over the components.\<close>

definition normpath_step :: "nat \<Rightarrow> pystr \<Rightarrow> pystr list \<Rightarrow> pystr list" where
  "normpath_step initial_slashes name new_comps =
     (if name = [] \<or> name = [46] then new_comps
      else if name \<noteq> [46, 46] \<or> (initial_slashes = 0 \<and> new_comps = [])
              \<or> (new_comps \<noteq> [] \<and> last new_comps = [46, 46])
           then new_comps @ [name]
      else if new_comps \<noteq> [] then butlast new_comps
      else new_comps)"

definition normpath :: "pystr \<Rightarrow> pystr" where
  "normpath path =
     (if path = [] then [46]
      else
        let initial_slashes =
              (if startswith path [47] then
                 (if startswith path [47, 47] \<and> \<not> startswith path [47, 47, 47] then 2 else 1)
               else 0);
            comps = fold (normpath_step initial_slashes) (split_char 47 path) [];
            p = replicate initial_slashes 47 @ str_join [47] comps
        in if p = [] then [46] else p)"

definition abspath :: "pystr \<Rightarrow> pystr \<Rightarrow> pystr" where
  "abspath cwd path = normpath (if startswith path [47] then path else path_join cwd path)"

definition basename :: "pystr \<Rightarrow> pystr" where
  "basename p = rev (takeWhile (\<lambda>c. c \<noteq> 47) (rev p))"

text \<open>\<^verbatim>\<open>s.replace('\\', '/')\<close>: every backslash (92) becomes a slash.\<close>

definition replace_backslash :: "pystr \<Rightarrow> pystr" where
  "replace_backslash s = map (\<lambda>c. if c = 92 then 47 else c) s"

subsection \<open>The world outside the handler\<close>

text \<open>
  The file system, the working directory and the MIME lookup are the host's; the
  handler sees them through the calls below. \<open>open_rb p\<close> is
  \<^verbatim>\<open>open(p, 'rb').read()\<close> and \<open>listdir p\<close> is \<^verbatim>\<open>os.listdir(p)\<close>; both
  are \<open>None\<close> when the call raises. \<^verbatim>\<open>os.path.isdir\<close>, \<^verbatim>\<open>os.path.isfile\<close>
  and \<^verbatim>\<open>os.access\<close> answer without raising. \<open>guess_type p\<close> is the first
  component of \<^verbatim>\<open>mimetypes.guess_type(p)\<close>. Console output (\<^verbatim>\<open>print\<close>) is not
  modelled.
\<close>

record host =
  getcwd :: pystr
  isdir :: "pystr \<Rightarrow> bool"
  isfile :: "pystr \<Rightarrow> bool"
  access_r :: "pystr \<Rightarrow> bool"
  open_rb :: "pystr \<Rightarrow> bytes option"
  listdir :: "pystr \<Rightarrow> pystr list option"
  guess_type :: "pystr \<Rightarrow> pystr option"

text \<open>
  The accepted connection: \<open>recv\<close> is what \<^verbatim>\<open>client_socket.recv(1024)\<close>
  returns (\<open>None\<close> when it raises), and \<open>sendall_raises k\<close> tells whether the
  \<open>k\<close>-th call of \<^verbatim>\<open>sendall\<close> on the socket, counted from 0, raises.
\<close>

record client_socket =
  recv :: "bytes option"
  sendall_raises :: "nat \<Rightarrow> bool"

text \<open>\<^verbatim>\<open>__init__\<close>: the root directory is made absolute once.\<close>

record server =
  root_dir :: pystr

definition init_server :: "host \<Rightarrow> pystr \<Rightarrow> server" where
  "init_server h root = \<lparr>root_dir = abspath (getcwd h) root\<rparr>"

text \<open>What a handler does to the world, in order.\<close>

datatype event =
    IsDir pystr
  | ListDir pystr
  | IsFile pystr
  | Access pystr
  | Open pystr
  | Sendall bytes
  | SendallFailed bytes
  | Close

text \<open>How the body of the \<^verbatim>\<open>try\<close> block ends: it returns without sending, it
  calls \<^verbatim>\<open>sendall\<close> on a response and returns, or it raises.\<close>

datatype step = Return | Send bytes | Raise

definition reply :: "bytes option \<Rightarrow> step" where
  "reply r = (case r of None \<Rightarrow> Raise | Some b \<Rightarrow> Send b)"

subsection \<open>\<^verbatim>\<open>create_response\<close>\<close>

text \<open>The body argument is \<^verbatim>\<open>bytes\<close> at most call sites and a \<^verbatim>\<open>str\<close> for
  the directory pages; \<^verbatim>\<open>len\<close> and truth are those of the value passed.\<close>

datatype content = Bytes bytes | Str pystr

definition content_len :: "content \<Rightarrow> nat" where
  "content_len c = (case c of Bytes b \<Rightarrow> length b | Str s \<Rightarrow> length s)"

definition truthy :: "content \<Rightarrow> bool" where
  "truthy c = (content_len c \<noteq> 0)"

definition content_bytes :: "content \<Rightarrow> bytes option" where
  "content_bytes c = (case c of Bytes b \<Rightarrow> Some b | Str s \<Rightarrow> utf8_encode s)"

text \<open>A \<^verbatim>\<open>dict\<close> keeps its keys in insertion order; assigning to a key that is
  present keeps its place.\<close>

type_synonym headers = "(pystr \<times> pystr) list"

fun dict_set :: "pystr \<Rightarrow> pystr \<Rightarrow> headers \<Rightarrow> headers" where
  "dict_set k v [] = [(k, v)]"
| "dict_set k v (p # ps) = (if fst p = k then (k, v) # ps else p # dict_set k v ps)"

definition dict_update :: "headers \<Rightarrow> headers \<Rightarrow> headers" where
  "dict_update d extra = fold (\<lambda>kv acc. dict_set (fst kv) (snd kv) acc) extra d"

definition header_line :: "pystr \<times> pystr \<Rightarrow> pystr" where
  "header_line kv = fst kv @ ascii '': '' @ snd kv"

definition response_headers :: "content \<Rightarrow> pystr \<Rightarrow> headers \<Rightarrow> headers" where
  "response_headers content content_type extra_headers =
     (let headers0 = [(ascii ''Server'', ascii ''SimplePythonWebServer''),
                      (ascii ''Connection'', ascii ''close'')];
          headers1 =
            (if truthy content
             then dict_set (ascii ''Content-Type'') content_type
                    (dict_set (ascii ''Content-Length'') (str_of_nat (content_len content)) headers0)
             else headers0)
      in if extra_headers \<noteq> [] then dict_update headers1 extra_headers else headers1)"

definition create_response_v2 ::
  "nat \<Rightarrow> pystr \<Rightarrow> content \<Rightarrow> pystr \<Rightarrow> headers \<Rightarrow> bytes option" where
  "create_response_v2 status_code status_message content content_type extra_headers =
     (let response_line =
            ascii ''HTTP/1.1 '' @ str_of_nat status_code @ ascii '' '' @ status_message @ [13, 10];
          headers = response_headers content content_type extra_headers;
          headers_str = str_join [13, 10] (map header_line headers) @ [13, 10, 13, 10]
      in case utf8_encode response_line of
           None \<Rightarrow> None
         | Some line \<Rightarrow>
             (case utf8_encode headers_str of
                None \<Rightarrow> None
              | Some hs \<Rightarrow>
                  if truthy content
                  then (case content_bytes content of None \<Rightarrow> None | Some b \<Rightarrow> Some (line @ hs @ b))
                  else Some (line @ hs)))"

text \<open>The minimal variant's \<^verbatim>\<open>create_response\<close> has no \<^verbatim>\<open>extra_headers\<close>
  parameter and is otherwise the same text.\<close>

definition create_response_v1 :: "nat \<Rightarrow> pystr \<Rightarrow> content \<Rightarrow> pystr \<Rightarrow> bytes option" where
  "create_response_v1 status_code status_message content content_type =
     (let response_line =
            ascii ''HTTP/1.1 '' @ str_of_nat status_code @ ascii '' '' @ status_message @ [13, 10];
          headers = response_headers content content_type [];
          headers_str = str_join [13, 10] (map header_line headers) @ [13, 10, 13, 10]
      in case utf8_encode response_line of
           None \<Rightarrow> None
         | Some line \<Rightarrow>
             (case utf8_encode headers_str of
                None \<Rightarrow> None
              | Some hs \<Rightarrow>
                  if truthy content
                  then (case content_bytes content of None \<Rightarrow> None | Some b \<Rightarrow> Some (line @ hs @ b))
                  else Some (line @ hs)))"

subsection \<open>\<^verbatim>\<open>handle_client\<close>, minimal variant\<close>

text \<open>From the default page to the response (the second half of the
  \<^verbatim>\<open>try\<close> block), with the file-system calls made on the way. The containment
  test is on the normalised path; the file is then looked up under the path as
  joined.\<close>

definition dispatch_v1 :: "server \<Rightarrow> host \<Rightarrow> pystr \<Rightarrow> event list \<times> step" where
  "dispatch_v1 srv h path0 =
     (let path = (if path0 = ascii ''/'' then ascii ''/index.html'' else path0);
          file_path = path_join (root_dir srv) (lstrip 47 path)
      in if \<not> startswith (abspath (getcwd h) file_path) (root_dir srv)
         then ([], reply (create_response_v1 403 (ascii ''Forbidden'')
                            (Bytes []) (ascii ''text/html'')))
         else if \<not> isfile h file_path
         then ([IsFile file_path],
               reply (create_response_v1 404 (ascii ''Not Found'')
                        (Bytes ''<h1>404 Not Found</h1>'') (ascii ''text/html'')))
         else if \<not> access_r h file_path
         then ([IsFile file_path, Access file_path],
               reply (create_response_v1 404 (ascii ''Not Found'')
                        (Bytes ''<h1>404 Not Found</h1>'') (ascii ''text/html'')))
         else
           (case open_rb h file_path of
              None \<Rightarrow> ([IsFile file_path, Access file_path, Open file_path], Raise)
            | Some content \<Rightarrow>
                let mime_type =
                      (case guess_type h file_path of
                         None \<Rightarrow> ascii ''text/plain''
                       | Some m \<Rightarrow> if m = [] then ascii ''text/plain'' else m)
                in ([IsFile file_path, Access file_path, Open file_path],
                    reply (create_response_v1 200 (ascii ''OK'') (Bytes content) mime_type))))"

text \<open>The body of the \<^verbatim>\<open>try\<close> block: read, decode, split the request line,
  check the method, then dispatch on the path token as received.\<close>

definition try_body_v1 :: "server \<Rightarrow> host \<Rightarrow> client_socket \<Rightarrow> event list \<times> step" where
  "try_body_v1 srv h sock =
     (case recv sock of
        None \<Rightarrow> ([], Raise)
      | Some received \<Rightarrow>
          (case utf8_decode False received of
             None \<Rightarrow> ([], Raise)
           | Some request_data \<Rightarrow>
               if request_data = [] then ([], Return)
               else
                 let request_line = first_line request_data;
                     parts = split_whitespace request_line
                 in if length parts < 2
                    then ([], reply (create_response_v1 400 (ascii ''Bad Request'')
                                       (Bytes []) (ascii ''text/html'')))
                    else
                      let method = parts ! 0; path = parts ! 1
                      in if method \<noteq> ascii ''GET''
                         then ([], reply (create_response_v1 405 (ascii ''Method Not Allowed'')
                                            (Bytes []) (ascii ''text/html'')))
                         else dispatch_v1 srv h path))"

text \<open>
  The \<^verbatim>\<open>except Exception\<close> clause builds the fixed 500 response and sends it
  with the \<open>k\<close>-th call of \<^verbatim>\<open>sendall\<close>; an exception raised there leaves the
  handler. The \<^verbatim>\<open>finally\<close> clause closes the socket on every path. The result
  is the trace of events and whether an exception left the handler.
\<close>

definition except_clause_v1 :: "client_socket \<Rightarrow> nat \<Rightarrow> event list \<Rightarrow> event list \<times> bool" where
  "except_clause_v1 sock k evs =
     (case create_response_v1 500 (ascii ''Internal Server Error'')
             (Bytes ''<h1>500 Internal Server Error</h1>'') (ascii ''text/html'') of
        None \<Rightarrow> (evs @ [Close], True)
      | Some response \<Rightarrow>
          if sendall_raises sock k then (evs @ [SendallFailed response, Close], True)
          else (evs @ [Sendall response, Close], False))"

definition handle_client_v1 :: "server \<Rightarrow> host \<Rightarrow> client_socket \<Rightarrow> event list \<times> bool" where
  "handle_client_v1 srv h sock =
     (case try_body_v1 srv h sock of
        (evs, Return) \<Rightarrow> (evs @ [Close], False)
      | (evs, Send response) \<Rightarrow>
          if sendall_raises sock 0 then except_clause_v1 sock 1 (evs @ [SendallFailed response])
          else (evs @ [Sendall response, Close], False)
      | (evs, Raise) \<Rightarrow> except_clause_v1 sock 0 evs)"

subsection \<open>\<^verbatim>\<open>handle_client\<close>, extended variant\<close>

text \<open>The directory page: a heading, then one list item per entry, appended in
  the order \<^verbatim>\<open>os.listdir\<close> gave them. The heading's fixed text is five
  characters outside ASCII.\<close>

definition listing_item :: "pystr \<Rightarrow> pystr \<Rightarrow> pystr" where
  "listing_item path item =
     ascii ''<li><a href='' @ [34] @ replace_backslash (path_join path item) @ [34]
       @ ascii ''>'' @ item @ ascii ''</a></li>''"

definition listing_html :: "pystr \<Rightarrow> pystr list \<Rightarrow> pystr" where
  "listing_html path items =
     fold (\<lambda>item content. content @ listing_item path item) items
       (ascii ''<h1>'' @ [0x76EE, 0x5F55, 0x5217, 0x8868, 0xFF1A] @ path @ ascii ''</h1><ul>'')
     @ ascii ''</ul>''"

text \<open>The inner \<^verbatim>\<open>try\<close>: any failure while listing or while building the page
  gives the 500 response of the inner \<^verbatim>\<open>except\<close> clause, whose body is six
  characters outside ASCII between the tags.\<close>

definition list_directory_v2 :: "host \<Rightarrow> pystr \<Rightarrow> pystr \<Rightarrow> step" where
  "list_directory_v2 h abs_path path =
     (let failed =
            reply (create_response_v2 500 (ascii ''Internal Server Error'')
                     (Str (ascii ''<h1>'' @ [0x8BFB, 0x53D6, 0x76EE, 0x5F55, 0x5931, 0x8D25]
                           @ ascii ''</h1>''))
                     (ascii ''text/html'') [])
      in case listdir h abs_path of
           None \<Rightarrow> failed
         | Some items \<Rightarrow>
             (case create_response_v2 200 (ascii ''OK'') (Str (listing_html path items))
                     (ascii ''text/html'') [] of
                None \<Rightarrow> failed
              | Some response \<Rightarrow> Send response))"

definition download_extensions :: "pystr list" where
  "download_extensions =
     [ascii ''.doc'', ascii ''.docx'', ascii ''.pdf'', ascii ''.xlsx'', ascii ''.zip'']"

text \<open>From the default page to the response, on the decoded path. Both the
  containment test and the file-system calls use the normalised path.\<close>

definition dispatch_v2 :: "server \<Rightarrow> host \<Rightarrow> pystr \<Rightarrow> event list \<times> step" where
  "dispatch_v2 srv h path0 =
     (let path = (if path0 = ascii ''/'' then ascii ''/index.html'' else path0);
          file_path = path_join (root_dir srv) (lstrip 47 path);
          abs_path = abspath (getcwd h) file_path
      in if \<not> startswith abs_path (root_dir srv)
         then ([], reply (create_response_v2 403 (ascii ''Forbidden'')
                            (Bytes []) (ascii ''text/html'') []))
         else if isdir h abs_path
         then ([IsDir abs_path, ListDir abs_path], list_directory_v2 h abs_path path)
         else if \<not> isfile h abs_path
         then ([IsDir abs_path, IsFile abs_path],
               reply (create_response_v2 404 (ascii ''Not Found'')
                        (Bytes ''<h1>404 Not Found</h1>'') (ascii ''text/html'') []))
         else if \<not> access_r h abs_path
         then ([IsDir abs_path, IsFile abs_path, Access abs_path],
               reply (create_response_v2 404 (ascii ''Not Found'')
                        (Bytes ''<h1>404 Not Found</h1>'') (ascii ''text/html'') []))
         else
           (case open_rb h abs_path of
              None \<Rightarrow>
                ([IsDir abs_path, IsFile abs_path, Access abs_path, Open abs_path], Raise)
            | Some content \<Rightarrow>
                let mime_type =
                      (case guess_type h abs_path of
                         None \<Rightarrow> ascii ''application/octet-stream''
                       | Some m \<Rightarrow> if m = [] then ascii ''application/octet-stream'' else m);
                    extra_headers =
                      (if list_ex (endswith abs_path) download_extensions
                       then [(ascii ''Content-Disposition'',
                              ascii ''attachment; filename='' @ [34] @ basename abs_path @ [34])]
                       else [])
                in ([IsDir abs_path, IsFile abs_path, Access abs_path, Open abs_path],
                    reply (create_response_v2 200 (ascii ''OK'')
                             (Bytes content) mime_type extra_headers))))"

definition try_body_v2 :: "server \<Rightarrow> host \<Rightarrow> client_socket \<Rightarrow> event list \<times> step" where
  "try_body_v2 srv h sock =
     (case recv sock of
        None \<Rightarrow> ([], Raise)
      | Some received \<Rightarrow>
          (case utf8_decode False received of
             None \<Rightarrow> ([], Raise)
           | Some request_data \<Rightarrow>
               if request_data = [] then ([], Return)
               else
                 let request_line = first_line request_data;
                     parts = split_whitespace request_line
                 in if length parts < 2
                    then ([], reply (create_response_v2 400 (ascii ''Bad Request'')
                                       (Bytes []) (ascii ''text/html'') []))
                    else
                      let method = parts ! 0; raw_path = parts ! 1
                      in if method \<noteq> ascii ''GET''
                         then ([], reply (create_response_v2 405 (ascii ''Method Not Allowed'')
                                            (Bytes []) (ascii ''text/html'') []))
                         else dispatch_v2 srv h (unquote raw_path)))"

definition except_clause_v2 :: "client_socket \<Rightarrow> nat \<Rightarrow> event list \<Rightarrow> event list \<times> bool" where
  "except_clause_v2 sock k evs =
     (case create_response_v2 500 (ascii ''Internal Server Error'')
             (Bytes ''<h1>500 Internal Server Error</h1>'') (ascii ''text/html'') [] of
        None \<Rightarrow> (evs @ [Close], True)
      | Some response \<Rightarrow>
          if sendall_raises sock k then (evs @ [SendallFailed response, Close], True)
          else (evs @ [Sendall response, Close], False))"

definition handle_client_v2 :: "server \<Rightarrow> host \<Rightarrow> client_socket \<Rightarrow> event list \<times> bool" where
  "handle_client_v2 srv h sock =
     (case try_body_v2 srv h sock of
        (evs, Return) \<Rightarrow> (evs @ [Close], False)
      | (evs, Send response) \<Rightarrow>
          if sendall_raises sock 0 then except_clause_v2 sock 1 (evs @ [SendallFailed response])
          else (evs @ [Sendall response, Close], False)
      | (evs, Raise) \<Rightarrow> except_clause_v2 sock 0 evs)"

subsection \<open>Reading a trace\<close>

text \<open>The events that touch the file system, as opposed to the socket.\<close>

fun is_fs_event :: "event \<Rightarrow> bool" where
  "is_fs_event (IsDir p) = True"
| "is_fs_event (ListDir p) = True"
| "is_fs_event (IsFile p) = True"
| "is_fs_event (Access p) = True"
| "is_fs_event (Open p) = True"
| "is_fs_event (Sendall b) = False"
| "is_fs_event (SendallFailed b) = False"
| "is_fs_event Close = False"

abbreviation CRLF :: bytes where
  "CRLF \<equiv> [CHR 0x0D, CHR 0x0A]"

text \<open>The response of the outer \<^verbatim>\<open>except\<close> clause, as it goes on the wire.\<close>

abbreviation internal_error_response :: bytes where
  "internal_error_response \<equiv>
     ''HTTP/1.1 500 Internal Server Error'' @ CRLF @ ''Server: SimplePythonWebServer'' @ CRLF
     @ ''Connection: close'' @ CRLF @ ''Content-Length: 34'' @ CRLF
     @ ''Content-Type: text/html'' @ CRLF @ CRLF @ ''<h1>500 Internal Server Error</h1>''"

subsection \<open>The client's side: percent-encoding a path\<close>

text \<open>
  What a client does to the UTF-8 octets of a path before it puts them on the
  request line (\<^verbatim>\<open>urllib.parse.quote\<close> with its default \<^verbatim>\<open>safe='/'\<close>):
  letters, digits and \<^verbatim>\<open>_.-~/\<close> stay, every other octet becomes \<^verbatim>\<open>%XX\<close> in
  upper-case hexadecimal. It is not part of the server; it states what a
  percent-encoded path is.
\<close>

definition is_unreserved :: "nat \<Rightarrow> bool" where
  "is_unreserved b =
     ((48 \<le> b \<and> b \<le> 57) \<or> (65 \<le> b \<and> b \<le> 90) \<or> (97 \<le> b \<and> b \<le> 122)
      \<or> b = 95 \<or> b = 46 \<or> b = 45 \<or> b = 126 \<or> b = 47)"

definition hex_digit :: "nat \<Rightarrow> nat" where
  "hex_digit n = (if n < 10 then 48 + n else 55 + n)"

definition quote_octet :: "nat \<Rightarrow> pystr" where
  "quote_octet b = (if is_unreserved b then [b] else [37, hex_digit (b div 16), hex_digit (b mod 16)])"

definition quote :: "bytes \<Rightarrow> pystr" where
  "quote bs = concat (map (\<lambda>b. quote_octet (of_char b)) bs)"

subsection \<open>A concrete host\<close>

text \<open>
  The scenario of the specification: the root \<^verbatim>\<open>/srv/root\<close> holds
  \<^verbatim>\<open>index.html\<close> and a directory \<^verbatim>\<open>docs\<close> with \<^verbatim>\<open>a.txt\<close>; added are a
  file whose name is the character \<open>U+4E2D\<close> followed by \<^verbatim>\<open>.txt\<close>, and a
  sibling directory \<^verbatim>\<open>/srv/rootevil\<close> with a file \<^verbatim>\<open>secret\<close>. The file
  system walks a path component by component, as a POSIX system without symbolic
  links does: a component is looked up in the directory reached so far, which must
  exist and be a directory; \<^verbatim>\<open>..\<close> names its parent; an empty component and
  \<^verbatim>\<open>.\<close> stay where they are. So a path through a missing component, or with
  a slash after the name of a file, names nothing. A connection delivers the given
  octets and never fails to send.
\<close>

definition scenario_files :: "(pystr \<times> bytes) list" where
  "scenario_files =
     [(ascii ''/srv/root/index.html'', ''hi''),
      (ascii ''/srv/root/docs/a.txt'', ''A''),
      (ascii ''/srv/root/'' @ [0x4E2D] @ ascii ''.txt'', ''zh''),
      (ascii ''/srv/rootevil/secret'', ''top'')]"

definition scenario_dirs :: "(pystr \<times> pystr list) list" where
  "scenario_dirs =
     [(ascii ''/'', [ascii ''srv'']),
      (ascii ''/srv'', [ascii ''root'', ascii ''rootevil'']),
      (ascii ''/srv/root'', [ascii ''index.html'', ascii ''docs'', [0x4E2D] @ ascii ''.txt'']),
      (ascii ''/srv/root/docs'', [ascii ''a.txt'']),
      (ascii ''/srv/rootevil'', [ascii ''secret''])]"

text \<open>The parent of a directory given by its absolute path; the root is its own
  parent.\<close>

definition parent_dir :: "pystr \<Rightarrow> pystr" where
  "parent_dir d =
     (let up = rev (drop 1 (dropWhile (\<lambda>c. c \<noteq> 47) (rev d)))
      in if up = [] then [47] else up)"

text \<open>One component of the walk: \<open>cur\<close> is the absolute path of what was reached
  so far, \<open>None\<close> once the walk has failed.\<close>

definition walk_step :: "pystr \<Rightarrow> pystr option \<Rightarrow> pystr option" where
  "walk_step name cur =
     (case cur of
        None \<Rightarrow> None
      | Some d \<Rightarrow>
          if map_of scenario_dirs d = None then None
          else if name = [] then Some d
          else if name = [46] then Some d
          else if name = [46, 46] then Some (parent_dir d)
          else
            let p = (if d = [47] then d @ name else d @ [47] @ name)
            in if map_of scenario_dirs p = None \<and> map_of scenario_files p = None then None
               else Some p)"

text \<open>The absolute path of what a path names, if it names anything; a relative
  path starts at the working directory, which is \<^verbatim>\<open>/\<close>.\<close>

definition resolve :: "pystr \<Rightarrow> pystr option" where
  "resolve p = (if p = [] then None else fold walk_step (split_char 47 p) (Some [47]))"

definition scenario_host :: host where
  "scenario_host =
     \<lparr>getcwd = ascii ''/'',
      isdir = (\<lambda>p. case resolve p of None \<Rightarrow> False
                                      | Some q \<Rightarrow> map_of scenario_dirs q \<noteq> None),
      isfile = (\<lambda>p. case resolve p of None \<Rightarrow> False
                                       | Some q \<Rightarrow> map_of scenario_files q \<noteq> None),
      access_r = (\<lambda>p. True),
      open_rb = (\<lambda>p. case resolve p of None \<Rightarrow> None
                                        | Some q \<Rightarrow> map_of scenario_files q),
      listdir = (\<lambda>p. case resolve p of None \<Rightarrow> None
                                        | Some q \<Rightarrow> map_of scenario_dirs q),
      guess_type = (\<lambda>p. if endswith p (ascii ''.txt'') then Some (ascii ''text/plain'')
                         else if endswith p (ascii ''.html'') then Some (ascii ''text/html'')
                         else None)\<rparr>"

definition scenario_server :: server where
  "scenario_server = init_server scenario_host (ascii ''/srv/root'')"

definition connection :: "bytes \<Rightarrow> client_socket" where
  "connection received = \<lparr>recv = Some received, sendall_raises = (\<lambda>k. False)\<rparr>"

section \<open>Responses with fixed arguments\<close>

lemmas response_defs = create_response_v2_def response_headers_def
  truthy_def content_len_def content_bytes_def header_line_def str_of_nat.simps
  utf8_encode_char_def char_of_eq_iff Let_def

lemma create_response_v1_eq:
  "create_response_v1 code msg content ctype = create_response_v2 code msg content ctype []"
  by (simp add: create_response_v1_def create_response_v2_def)

lemma response_400:
  "create_response_v2 400 (ascii ''Bad Request'') (Bytes []) (ascii ''text/html'') [] =
     Some (''HTTP/1.1 400 Bad Request'' @ CRLF @ ''Server: SimplePythonWebServer'' @ CRLF
           @ ''Connection: close'' @ CRLF @ CRLF)"
  by (simp add: response_defs)

lemma response_405:
  "create_response_v2 405 (ascii ''Method Not Allowed'') (Bytes []) (ascii ''text/html'') [] =
     Some (''HTTP/1.1 405 Method Not Allowed'' @ CRLF @ ''Server: SimplePythonWebServer'' @ CRLF
           @ ''Connection: close'' @ CRLF @ CRLF)"
  by (simp add: response_defs)

lemma response_403:
  "create_response_v2 403 (ascii ''Forbidden'') (Bytes []) (ascii ''text/html'') [] =
     Some (''HTTP/1.1 403 Forbidden'' @ CRLF @ ''Server: SimplePythonWebServer'' @ CRLF
           @ ''Connection: close'' @ CRLF @ CRLF)"
  by (simp add: response_defs)

lemma response_404:
  "create_response_v2 404 (ascii ''Not Found'') (Bytes ''<h1>404 Not Found</h1>'') (ascii ''text/html'') [] =
     Some (''HTTP/1.1 404 Not Found'' @ CRLF @ ''Server: SimplePythonWebServer'' @ CRLF
           @ ''Connection: close'' @ CRLF @ ''Content-Length: 22'' @ CRLF
           @ ''Content-Type: text/html'' @ CRLF @ CRLF @ ''<h1>404 Not Found</h1>'')"
  by (simp add: response_defs)

lemma response_500:
  "create_response_v2 500 (ascii ''Internal Server Error'')
      (Bytes ''<h1>500 Internal Server Error</h1>'') (ascii ''text/html'') [] =
     Some (''HTTP/1.1 500 Internal Server Error'' @ CRLF @ ''Server: SimplePythonWebServer'' @ CRLF
           @ ''Connection: close'' @ CRLF @ ''Content-Length: 34'' @ CRLF
           @ ''Content-Type: text/html'' @ CRLF @ CRLF @ ''<h1>500 Internal Server Error</h1>'')"
  by (simp add: response_defs)

section \<open>From the body of the try block to the trace\<close>

lemma except_clause_v2_eq:
  "except_clause_v2 sock k evs =
     (if sendall_raises sock k
      then (evs @ [SendallFailed (''HTTP/1.1 500 Internal Server Error'' @ CRLF
                     @ ''Server: SimplePythonWebServer'' @ CRLF @ ''Connection: close'' @ CRLF
                     @ ''Content-Length: 34'' @ CRLF @ ''Content-Type: text/html'' @ CRLF @ CRLF
                     @ ''<h1>500 Internal Server Error</h1>''), Close], True)
      else (evs @ [Sendall (''HTTP/1.1 500 Internal Server Error'' @ CRLF
                     @ ''Server: SimplePythonWebServer'' @ CRLF @ ''Connection: close'' @ CRLF
                     @ ''Content-Length: 34'' @ CRLF @ ''Content-Type: text/html'' @ CRLF @ CRLF
                     @ ''<h1>500 Internal Server Error</h1>''), Close], False))"
  unfolding except_clause_v2_def response_500 by simp

lemma except_clause_v1_eq: "except_clause_v1 sock k evs = except_clause_v2 sock k evs"
  by (simp add: except_clause_v1_def except_clause_v2_def create_response_v1_eq)

lemma handle_client_v1_send:
  "try_body_v1 srv h sock = (evs, Send r) \<Longrightarrow>
   handle_client_v1 srv h sock =
     (if sendall_raises sock 0 then except_clause_v1 sock 1 (evs @ [SendallFailed r])
      else (evs @ [Sendall r, Close], False))"
  by (simp add: handle_client_v1_def)

lemma handle_client_v2_send:
  "try_body_v2 srv h sock = (evs, Send r) \<Longrightarrow>
   handle_client_v2 srv h sock =
     (if sendall_raises sock 0 then except_clause_v2 sock 1 (evs @ [SendallFailed r])
      else (evs @ [Sendall r, Close], False))"
  by (simp add: handle_client_v2_def)

lemma handle_client_v1_raise:
  "try_body_v1 srv h sock = (evs, Raise) \<Longrightarrow>
   handle_client_v1 srv h sock = except_clause_v1 sock 0 evs"
  by (simp add: handle_client_v1_def)

lemma handle_client_v2_raise:
  "try_body_v2 srv h sock = (evs, Raise) \<Longrightarrow>
   handle_client_v2 srv h sock = except_clause_v2 sock 0 evs"
  by (simp add: handle_client_v2_def)

lemma handle_client_v1_return:
  "try_body_v1 srv h sock = (evs, Return) \<Longrightarrow> handle_client_v1 srv h sock = (evs @ [Close], False)"
  by (simp add: handle_client_v1_def)

lemma handle_client_v2_return:
  "try_body_v2 srv h sock = (evs, Return) \<Longrightarrow> handle_client_v2 srv h sock = (evs @ [Close], False)"
  by (simp add: handle_client_v2_def)

section \<open>The request line\<close>

lemma split_whitespace_empty: "split_whitespace (first_line []) = []"
  by (simp add: split_whitespace_def)

lemma try_body_v1_short:
  assumes "recv sock = Some received" "utf8_decode False received = Some request_data"
    "request_data \<noteq> []" "length (split_whitespace (first_line request_data)) < 2"
  shows "try_body_v1 srv h sock =
           ([], Send (''HTTP/1.1 400 Bad Request'' @ CRLF @ ''Server: SimplePythonWebServer'' @ CRLF
                      @ ''Connection: close'' @ CRLF @ CRLF))"
  unfolding try_body_v1_def create_response_v1_eq response_400 using assms
  by (simp add: reply_def)

lemma try_body_v2_short:
  assumes "recv sock = Some received" "utf8_decode False received = Some request_data"
    "request_data \<noteq> []" "length (split_whitespace (first_line request_data)) < 2"
  shows "try_body_v2 srv h sock =
           ([], Send (''HTTP/1.1 400 Bad Request'' @ CRLF @ ''Server: SimplePythonWebServer'' @ CRLF
                      @ ''Connection: close'' @ CRLF @ CRLF))"
  unfolding try_body_v2_def response_400 using assms
  by (simp add: reply_def)

lemma try_body_v1_method:
  assumes "recv sock = Some received" "utf8_decode False received = Some request_data"
    "split_whitespace (first_line request_data) = method # path # rest" "method \<noteq> ascii ''GET''"
  shows "try_body_v1 srv h sock =
           ([], Send (''HTTP/1.1 405 Method Not Allowed'' @ CRLF @ ''Server: SimplePythonWebServer'' @ CRLF
                      @ ''Connection: close'' @ CRLF @ CRLF))"
proof -
  have "request_data \<noteq> []" using assms(3) split_whitespace_empty by auto
  then show ?thesis
    unfolding try_body_v1_def create_response_v1_eq response_405 using assms
    by (simp add: reply_def)
qed

lemma try_body_v2_method:
  assumes "recv sock = Some received" "utf8_decode False received = Some request_data"
    "split_whitespace (first_line request_data) = method # path # rest" "method \<noteq> ascii ''GET''"
  shows "try_body_v2 srv h sock =
           ([], Send (''HTTP/1.1 405 Method Not Allowed'' @ CRLF @ ''Server: SimplePythonWebServer'' @ CRLF
                      @ ''Connection: close'' @ CRLF @ CRLF))"
proof -
  have "request_data \<noteq> []" using assms(3) split_whitespace_empty by auto
  then show ?thesis
    unfolding try_body_v2_def response_405 using assms
    by (simp add: reply_def)
qed

lemma try_body_v1_get:
  assumes "recv sock = Some received" "utf8_decode False received = Some request_data"
    "split_whitespace (first_line request_data) = ascii ''GET'' # path # rest"
  shows "try_body_v1 srv h sock = dispatch_v1 srv h path"
proof -
  have "request_data \<noteq> []" using assms(3) split_whitespace_empty by auto
  then show ?thesis
    unfolding try_body_v1_def using assms by simp
qed

lemma try_body_v2_get:
  assumes "recv sock = Some received" "utf8_decode False received = Some request_data"
    "split_whitespace (first_line request_data) = ascii ''GET'' # raw_path # rest"
  shows "try_body_v2 srv h sock = dispatch_v2 srv h (unquote raw_path)"
proof -
  have "request_data \<noteq> []" using assms(3) split_whitespace_empty by auto
  then show ?thesis
    unfolding try_body_v2_def using assms by simp
qed

lemma try_body_v1_undecodable:
  assumes "recv sock = Some received" "utf8_decode False received = None"
  shows "try_body_v1 srv h sock = ([], Raise)"
  unfolding try_body_v1_def using assms by simp

lemma try_body_v2_undecodable:
  assumes "recv sock = Some received" "utf8_decode False received = None"
  shows "try_body_v2 srv h sock = ([], Raise)"
  unfolding try_body_v2_def using assms by simp

section \<open>Claims on the request line\<close>

text \<open>
  C9. When the first read of an accepted connection returns zero bytes, the
  handler sends nothing and closes the socket: the trace is the single event
  \<open>Close\<close>, in both variants.
\<close>

theorem empty_read_closes_silently:
  assumes "recv sock = Some []"
  shows "handle_client_v1 srv h sock = ([Close], False)
       \<and> handle_client_v2 srv h sock = ([Close], False)"
proof -
  have "try_body_v1 srv h sock = ([], Return)" "try_body_v2 srv h sock = ([], Return)"
    using assms by (simp_all add: try_body_v1_def try_body_v2_def utf8_decode_def)
  then show ?thesis
    by (simp add: handle_client_v1_return handle_client_v2_return)
qed

theorem empty_read_closes_silently_witness:
  "recv (connection []) = Some []
   \<and> handle_client_v1 scenario_server scenario_host (connection []) = ([Close], False)
   \<and> handle_client_v2 scenario_server scenario_host (connection []) = ([Close], False)"
proof -
  have r: "recv (connection []) = Some []" by (simp add: connection_def)
  show ?thesis
    using r empty_read_closes_silently [OF r, of scenario_server scenario_host] by simp
qed

text \<open>
  C10. When the bytes received are not valid UTF-8, decoding raises inside the
  \<^verbatim>\<open>try\<close> block and the \<^verbatim>\<open>except\<close> clause answers: the only response the
  handler hands to \<^verbatim>\<open>sendall\<close> is the 500 response with the fixed body
  \<^verbatim>\<open><h1>500 Internal Server Error</h1>\<close>, never a 400; then the socket is closed.
  (If that one \<^verbatim>\<open>sendall\<close> raises, the exception leaves the handler.)
\<close>

theorem undecodable_request_gets_500:
  assumes "recv sock = Some received" "utf8_decode False received = None"
  shows "handle_client_v1 srv h sock =
           (if sendall_raises sock 0
            then ([SendallFailed (''HTTP/1.1 500 Internal Server Error'' @ CRLF
                     @ ''Server: SimplePythonWebServer'' @ CRLF @ ''Connection: close'' @ CRLF
                     @ ''Content-Length: 34'' @ CRLF @ ''Content-Type: text/html'' @ CRLF @ CRLF
                     @ ''<h1>500 Internal Server Error</h1>''), Close], True)
            else ([Sendall (''HTTP/1.1 500 Internal Server Error'' @ CRLF
                     @ ''Server: SimplePythonWebServer'' @ CRLF @ ''Connection: close'' @ CRLF
                     @ ''Content-Length: 34'' @ CRLF @ ''Content-Type: text/html'' @ CRLF @ CRLF
                     @ ''<h1>500 Internal Server Error</h1>''), Close], False))
       \<and> handle_client_v2 srv h sock = handle_client_v1 srv h sock"
proof -
  have 1: "handle_client_v1 srv h sock = except_clause_v2 sock 0 []"
    using handle_client_v1_raise [OF try_body_v1_undecodable [OF assms]]
    by (simp add: except_clause_v1_eq)
  have 2: "handle_client_v2 srv h sock = except_clause_v2 sock 0 []"
    using handle_client_v2_raise [OF try_body_v2_undecodable [OF assms]] .
  show ?thesis
    unfolding 1 2 except_clause_v2_eq by simp
qed

theorem undecodable_request_gets_500_witness:
  "recv (connection [CHR 0xFF]) = Some [CHR 0xFF]
   \<and> utf8_decode False [CHR 0xFF] = None
   \<and> handle_client_v1 scenario_server scenario_host (connection [CHR 0xFF]) =
        ([Sendall (''HTTP/1.1 500 Internal Server Error'' @ CRLF
                     @ ''Server: SimplePythonWebServer'' @ CRLF @ ''Connection: close'' @ CRLF
                     @ ''Content-Length: 34'' @ CRLF @ ''Content-Type: text/html'' @ CRLF @ CRLF
                     @ ''<h1>500 Internal Server Error</h1>''), Close], False)
   \<and> handle_client_v2 scenario_server scenario_host (connection [CHR 0xFF]) =
        handle_client_v1 scenario_server scenario_host (connection [CHR 0xFF])"
proof -
  have r: "recv (connection [CHR 0xFF]) = Some [CHR 0xFF]" by (simp add: connection_def)
  have d: "utf8_decode False [CHR 0xFF] = None"
    by (simp add: utf8_decode_def ill_formed_def)
  have s: "\<not> sendall_raises (connection [CHR 0xFF]) 0" by (simp add: connection_def)
  show ?thesis
    using r d s undecodable_request_gets_500 [OF r d, of scenario_server scenario_host] by simp
qed

text \<open>
  C6. When the request data is not empty and its first line splits on white space
  into fewer than two tokens, the response handed to \<^verbatim>\<open>sendall\<close> is the 400
  response, in both variants; nothing of the file system is consulted. (Should
  that \<^verbatim>\<open>sendall\<close> raise, the \<^verbatim>\<open>except\<close> clause runs.)
\<close>

theorem short_request_line_gets_400:
  assumes "recv sock = Some received" "utf8_decode False received = Some request_data"
    "request_data \<noteq> []" "length (split_whitespace (first_line request_data)) < 2"
  shows "handle_client_v1 srv h sock =
           (if sendall_raises sock 0
            then except_clause_v1 sock 1
                   [SendallFailed (''HTTP/1.1 400 Bad Request'' @ CRLF
                      @ ''Server: SimplePythonWebServer'' @ CRLF @ ''Connection: close'' @ CRLF @ CRLF)]
            else ([Sendall (''HTTP/1.1 400 Bad Request'' @ CRLF
                      @ ''Server: SimplePythonWebServer'' @ CRLF @ ''Connection: close'' @ CRLF @ CRLF),
                   Close], False))
       \<and> handle_client_v2 srv h sock =
           (if sendall_raises sock 0
            then except_clause_v2 sock 1
                   [SendallFailed (''HTTP/1.1 400 Bad Request'' @ CRLF
                      @ ''Server: SimplePythonWebServer'' @ CRLF @ ''Connection: close'' @ CRLF @ CRLF)]
            else ([Sendall (''HTTP/1.1 400 Bad Request'' @ CRLF
                      @ ''Server: SimplePythonWebServer'' @ CRLF @ ''Connection: close'' @ CRLF @ CRLF),
                   Close], False))"
  using handle_client_v1_send [OF try_body_v1_short [OF assms]]
        handle_client_v2_send [OF try_body_v2_short [OF assms]]
  by simp

theorem short_request_line_gets_400_witness:
  "recv (connection (''GET'' @ CRLF)) = Some (''GET'' @ CRLF)
   \<and> utf8_decode False (''GET'' @ CRLF) = Some (ascii ''GET'' @ [13, 10])
   \<and> ascii ''GET'' @ [13, 10] \<noteq> []
   \<and> length (split_whitespace (first_line (ascii ''GET'' @ [13, 10]))) < 2
   \<and> handle_client_v1 scenario_server scenario_host (connection (''GET'' @ CRLF)) =
        ([Sendall (''HTTP/1.1 400 Bad Request'' @ CRLF
                      @ ''Server: SimplePythonWebServer'' @ CRLF @ ''Connection: close'' @ CRLF @ CRLF),
          Close], False)
   \<and> handle_client_v2 scenario_server scenario_host (connection (''GET'' @ CRLF)) =
        ([Sendall (''HTTP/1.1 400 Bad Request'' @ CRLF
                      @ ''Server: SimplePythonWebServer'' @ CRLF @ ''Connection: close'' @ CRLF @ CRLF),
          Close], False)"
proof -
  have r: "recv (connection (''GET'' @ CRLF)) = Some (''GET'' @ CRLF)" by (simp add: connection_def)
  have d: "utf8_decode False (''GET'' @ CRLF) = Some (ascii ''GET'' @ [13, 10])"
    by (simp add: utf8_decode_def emit_def)
  have n: "ascii ''GET'' @ [13, 10] \<noteq> []" by simp
  have p: "length (split_whitespace (first_line (ascii ''GET'' @ [13, 10]))) < 2"
    by (simp add: split_whitespace_def isspace_def)
  have s: "\<not> sendall_raises (connection (''GET'' @ CRLF)) 0" by (simp add: connection_def)
  show ?thesis
    using r d n p s short_request_line_gets_400 [OF r d n p, of scenario_server scenario_host] by simp
qed

text \<open>
  C5, as the code has it. When the request line has at least two tokens, a method
  and a path, and the method is not exactly \<^verbatim>\<open>GET\<close>, the response handed to
  \<^verbatim>\<open>sendall\<close> is the 405 response, whatever the path token is: the path is
  neither decoded nor resolved and the file system is not consulted. (The test on
  the number of tokens comes first: a request line that is a method alone gets
  400.)
\<close>

theorem other_method_gets_405:
  assumes "recv sock = Some received" "utf8_decode False received = Some request_data"
    "split_whitespace (first_line request_data) = method # path # rest"
    "method \<noteq> ascii ''GET''"
  shows "handle_client_v1 srv h sock =
           (if sendall_raises sock 0
            then except_clause_v1 sock 1
                   [SendallFailed (''HTTP/1.1 405 Method Not Allowed'' @ CRLF
                      @ ''Server: SimplePythonWebServer'' @ CRLF @ ''Connection: close'' @ CRLF @ CRLF)]
            else ([Sendall (''HTTP/1.1 405 Method Not Allowed'' @ CRLF
                      @ ''Server: SimplePythonWebServer'' @ CRLF @ ''Connection: close'' @ CRLF @ CRLF),
                   Close], False))
       \<and> handle_client_v2 srv h sock =
           (if sendall_raises sock 0
            then except_clause_v2 sock 1
                   [SendallFailed (''HTTP/1.1 405 Method Not Allowed'' @ CRLF
                      @ ''Server: SimplePythonWebServer'' @ CRLF @ ''Connection: close'' @ CRLF @ CRLF)]
            else ([Sendall (''HTTP/1.1 405 Method Not Allowed'' @ CRLF
                      @ ''Server: SimplePythonWebServer'' @ CRLF @ ''Connection: close'' @ CRLF @ CRLF),
                   Close], False))"
  using handle_client_v1_send [OF try_body_v1_method [OF assms]]
        handle_client_v2_send [OF try_body_v2_method [OF assms]]
  by simp

theorem other_method_gets_405_witness:
  "recv (connection (''POST /../../etc/passwd HTTP/1.1'' @ CRLF @ CRLF))
     = Some (''POST /../../etc/passwd HTTP/1.1'' @ CRLF @ CRLF)
   \<and> utf8_decode False (''POST /../../etc/passwd HTTP/1.1'' @ CRLF @ CRLF)
       = Some (ascii ''POST /../../etc/passwd HTTP/1.1'' @ [13, 10, 13, 10])
   \<and> split_whitespace (first_line (ascii ''POST /../../etc/passwd HTTP/1.1'' @ [13, 10, 13, 10]))
       = ascii ''POST'' # ascii ''/../../etc/passwd'' # [ascii ''HTTP/1.1'']
   \<and> ascii ''POST'' \<noteq> ascii ''GET''
   \<and> handle_client_v1 scenario_server scenario_host
        (connection (''POST /../../etc/passwd HTTP/1.1'' @ CRLF @ CRLF)) =
        ([Sendall (''HTTP/1.1 405 Method Not Allowed'' @ CRLF
                      @ ''Server: SimplePythonWebServer'' @ CRLF @ ''Connection: close'' @ CRLF @ CRLF),
          Close], False)
   \<and> handle_client_v2 scenario_server scenario_host
        (connection (''POST /../../etc/passwd HTTP/1.1'' @ CRLF @ CRLF)) =
        ([Sendall (''HTTP/1.1 405 Method Not Allowed'' @ CRLF
                      @ ''Server: SimplePythonWebServer'' @ CRLF @ ''Connection: close'' @ CRLF @ CRLF),
          Close], False)"
proof -
  have r: "recv (connection (''POST /../../etc/passwd HTTP/1.1'' @ CRLF @ CRLF))
             = Some (''POST /../../etc/passwd HTTP/1.1'' @ CRLF @ CRLF)"
    by (simp add: connection_def)
  have d: "utf8_decode False (''POST /../../etc/passwd HTTP/1.1'' @ CRLF @ CRLF)
             = Some (ascii ''POST /../../etc/passwd HTTP/1.1'' @ [13, 10, 13, 10])"
    by (simp add: utf8_decode_def emit_def)
  have p: "split_whitespace (first_line (ascii ''POST /../../etc/passwd HTTP/1.1'' @ [13, 10, 13, 10]))
             = ascii ''POST'' # ascii ''/../../etc/passwd'' # [ascii ''HTTP/1.1'']"
    by (simp add: split_whitespace_def isspace_def)
  have m: "ascii ''POST'' \<noteq> ascii ''GET''" by simp
  have s: "\<not> sendall_raises (connection (''POST /../../etc/passwd HTTP/1.1'' @ CRLF @ CRLF)) 0"
    by (simp add: connection_def)
  show ?thesis
    using r d p m s other_method_gets_405 [OF r d p m, of scenario_server scenario_host] by simp
qed

text \<open>C5 as stated fails when the request line is a method alone: the line
  \<^verbatim>\<open>POST\<close> has a method token that is not \<^verbatim>\<open>GET\<close>, and both variants
  answer 400, since the number of tokens is tested before the method.\<close>

lemma decode_post_alone:
  "utf8_decode False (''POST'' @ CRLF) = Some (ascii ''POST'' @ [13, 10])"
  by (simp add: utf8_decode_def emit_def)

lemma post_alone_nonempty: "ascii ''POST'' @ [13, 10] \<noteq> []"
  by simp

lemma parts_post_alone:
  "length (split_whitespace (first_line (ascii ''POST'' @ [13, 10]))) < 2"
  by (simp add: split_whitespace_def isspace_def)

lemma recv_post_alone: "recv (connection (''POST'' @ CRLF)) = Some (''POST'' @ CRLF)"
  by (simp add: connection_def)

theorem method_alone_gets_400:
  "split_whitespace (first_line (ascii ''POST'' @ [13, 10])) = [ascii ''POST'']
   \<and> handle_client_v1 scenario_server scenario_host (connection (''POST'' @ CRLF)) =
        ([Sendall (''HTTP/1.1 400 Bad Request'' @ CRLF
                      @ ''Server: SimplePythonWebServer'' @ CRLF @ ''Connection: close'' @ CRLF @ CRLF),
          Close], False)
   \<and> handle_client_v2 scenario_server scenario_host (connection (''POST'' @ CRLF)) =
        ([Sendall (''HTTP/1.1 400 Bad Request'' @ CRLF
                      @ ''Server: SimplePythonWebServer'' @ CRLF @ ''Connection: close'' @ CRLF @ CRLF),
          Close], False)"
proof -
  have t: "split_whitespace (first_line (ascii ''POST'' @ [13, 10])) = [ascii ''POST'']"
    by (simp add: split_whitespace_def isspace_def)
  have s: "\<not> sendall_raises (connection (''POST'' @ CRLF)) 0" by (simp add: connection_def)
  show ?thesis
    using t s
      handle_client_v1_send
        [OF try_body_v1_short
              [OF recv_post_alone decode_post_alone post_alone_nonempty parts_post_alone,
               of scenario_server scenario_host]]
      handle_client_v2_send
        [OF try_body_v2_short
              [OF recv_post_alone decode_post_alone post_alone_nonempty parts_post_alone,
               of scenario_server scenario_host]]
    by simp
qed

section \<open>The default page\<close>

lemma dispatch_v1_root: "dispatch_v1 srv h (ascii ''/'') = dispatch_v1 srv h (ascii ''/index.html'')"
  by (simp add: dispatch_v1_def)

lemma dispatch_v2_root: "dispatch_v2 srv h (ascii ''/'') = dispatch_v2 srv h (ascii ''/index.html'')"
  by (simp add: dispatch_v2_def)

lemma unquote_root: "unquote (ascii ''/'') = ascii ''/''"
  by (simp add: unquote_def)

lemma unquote_index: "unquote (ascii ''/index.html'') = ascii ''/index.html''"
  by (simp add: unquote_def)

lemma handle_client_v1_cong:
  assumes "try_body_v1 srv h s1 = try_body_v1 srv h s2" "sendall_raises s1 = sendall_raises s2"
  shows "handle_client_v1 srv h s1 = handle_client_v1 srv h s2"
  unfolding handle_client_v1_def except_clause_v1_def assms by (rule refl)

lemma handle_client_v2_cong:
  assumes "try_body_v2 srv h s1 = try_body_v2 srv h s2" "sendall_raises s1 = sendall_raises s2"
  shows "handle_client_v2 srv h s1 = handle_client_v2 srv h s2"
  unfolding handle_client_v2_def except_clause_v2_def assms by (rule refl)

text \<open>
  C7. Two requests with the same method, one for the path \<^verbatim>\<open>/\<close> and one for
  \<^verbatim>\<open>/index.html\<close>, get the same trace (the same file-system calls and the same
  response) from the same server on the same host, whatever the file system holds;
  in both variants.
\<close>

theorem root_path_is_index_html:
  assumes "recv s1 = Some b1" "utf8_decode False b1 = Some d1"
    "split_whitespace (first_line d1) = method # ascii ''/'' # rest1"
    "recv s2 = Some b2" "utf8_decode False b2 = Some d2"
    "split_whitespace (first_line d2) = method # ascii ''/index.html'' # rest2"
    "sendall_raises s1 = sendall_raises s2"
  shows "handle_client_v1 srv h s1 = handle_client_v1 srv h s2
       \<and> handle_client_v2 srv h s1 = handle_client_v2 srv h s2"
proof (cases "method = ascii ''GET''")
  case True
  have 1: "try_body_v1 srv h s1 = try_body_v1 srv h s2"
    using try_body_v1_get [OF assms(1,2) assms(3) [unfolded True], of srv h]
          try_body_v1_get [OF assms(4,5) assms(6) [unfolded True], of srv h]
    by (simp only: dispatch_v1_root)
  have 2: "try_body_v2 srv h s1 = try_body_v2 srv h s2"
    using try_body_v2_get [OF assms(1,2) assms(3) [unfolded True], of srv h]
          try_body_v2_get [OF assms(4,5) assms(6) [unfolded True], of srv h]
    by (simp only: unquote_root unquote_index dispatch_v2_root)
  show ?thesis
    using handle_client_v1_cong [OF 1 assms(7)] handle_client_v2_cong [OF 2 assms(7)] by simp
next
  case False
  have 1: "try_body_v1 srv h s1 = try_body_v1 srv h s2"
    using try_body_v1_method [OF assms(1,2,3) False, of srv h]
          try_body_v1_method [OF assms(4,5,6) False, of srv h]
    by simp
  have 2: "try_body_v2 srv h s1 = try_body_v2 srv h s2"
    using try_body_v2_method [OF assms(1,2,3) False, of srv h]
          try_body_v2_method [OF assms(4,5,6) False, of srv h]
    by simp
  show ?thesis
    using handle_client_v1_cong [OF 1 assms(7)] handle_client_v2_cong [OF 2 assms(7)] by simp
qed

lemma decode_get_root:
  "utf8_decode False (''GET / HTTP/1.1'' @ CRLF @ CRLF) = Some (ascii ''GET / HTTP/1.1'' @ [13, 10, 13, 10])"
  by (simp add: utf8_decode_def emit_def)

lemma parts_get_root:
  "split_whitespace (first_line (ascii ''GET / HTTP/1.1'' @ [13, 10, 13, 10]))
     = ascii ''GET'' # ascii ''/'' # [ascii ''HTTP/1.1'']"
  by (simp add: split_whitespace_def isspace_def)

lemma decode_get_index:
  "utf8_decode False (''GET /index.html HTTP/1.1'' @ CRLF @ CRLF)
     = Some (ascii ''GET /index.html HTTP/1.1'' @ [13, 10, 13, 10])"
  by (simp add: utf8_decode_def emit_def)

lemma parts_get_index:
  "split_whitespace (first_line (ascii ''GET /index.html HTTP/1.1'' @ [13, 10, 13, 10]))
     = ascii ''GET'' # ascii ''/index.html'' # [ascii ''HTTP/1.1'']"
  by (simp add: split_whitespace_def isspace_def)

lemma recv_connection: "recv (connection b) = Some b"
  by (simp add: connection_def)

lemma sendall_connection: "sendall_raises (connection b) = sendall_raises (connection b')"
  by (simp add: connection_def)

theorem root_path_is_index_html_witness:
  "recv (connection (''GET / HTTP/1.1'' @ CRLF @ CRLF)) = Some (''GET / HTTP/1.1'' @ CRLF @ CRLF)
   \<and> utf8_decode False (''GET / HTTP/1.1'' @ CRLF @ CRLF)
       = Some (ascii ''GET / HTTP/1.1'' @ [13, 10, 13, 10])
   \<and> split_whitespace (first_line (ascii ''GET / HTTP/1.1'' @ [13, 10, 13, 10]))
       = ascii ''GET'' # ascii ''/'' # [ascii ''HTTP/1.1'']
   \<and> recv (connection (''GET /index.html HTTP/1.1'' @ CRLF @ CRLF))
       = Some (''GET /index.html HTTP/1.1'' @ CRLF @ CRLF)
   \<and> utf8_decode False (''GET /index.html HTTP/1.1'' @ CRLF @ CRLF)
       = Some (ascii ''GET /index.html HTTP/1.1'' @ [13, 10, 13, 10])
   \<and> split_whitespace (first_line (ascii ''GET /index.html HTTP/1.1'' @ [13, 10, 13, 10]))
       = ascii ''GET'' # ascii ''/index.html'' # [ascii ''HTTP/1.1'']
   \<and> sendall_raises (connection (''GET / HTTP/1.1'' @ CRLF @ CRLF))
       = sendall_raises (connection (''GET /index.html HTTP/1.1'' @ CRLF @ CRLF))
   \<and> handle_client_v1 scenario_server scenario_host (connection (''GET / HTTP/1.1'' @ CRLF @ CRLF))
       = handle_client_v1 scenario_server scenario_host
           (connection (''GET /index.html HTTP/1.1'' @ CRLF @ CRLF))
   \<and> handle_client_v2 scenario_server scenario_host (connection (''GET / HTTP/1.1'' @ CRLF @ CRLF))
       = handle_client_v2 scenario_server scenario_host
           (connection (''GET /index.html HTTP/1.1'' @ CRLF @ CRLF))"
  using recv_connection decode_get_root parts_get_root decode_get_index parts_get_index
    sendall_connection
    root_path_is_index_html [OF recv_connection decode_get_root parts_get_root
       recv_connection decode_get_index parts_get_index sendall_connection,
       of scenario_server scenario_host]
  by simp

section \<open>One response, one close\<close>

lemma emit_nonempty: "emit c r \<noteq> Some []"
  by (simp add: emit_def split: option.splits)

lemma ill_formed_nonempty: "ill_formed rep r \<noteq> Some []"
  by (simp add: ill_formed_def emit_nonempty)

lemma unexpected_end_nonempty: "unexpected_end rep \<noteq> Some []"
  by (simp add: unexpected_end_def)

lemma decode_values_nonempty: "utf8_decode_values r (x # xs) \<noteq> Some []"
  by (simp add: emit_nonempty ill_formed_nonempty unexpected_end_nonempty split: list.split)

lemma decode_nonempty: "utf8_decode r b = Some [] \<Longrightarrow> b = []"
  using decode_values_nonempty by (cases b) (auto simp: utf8_decode_def)

lemma reply_not_return: "reply r \<noteq> Return"
  by (simp add: reply_def split: option.splits)

lemma list_directory_v2_not_return: "list_directory_v2 h p q \<noteq> Return"
  by (simp add: list_directory_v2_def Let_def reply_not_return split: option.splits)

lemma dispatch_v1_not_return: "snd (dispatch_v1 srv h path) \<noteq> Return"
  by (simp add: dispatch_v1_def Let_def reply_not_return split: option.splits)

lemma dispatch_v2_not_return: "snd (dispatch_v2 srv h path) \<noteq> Return"
  by (simp add: dispatch_v2_def Let_def reply_not_return list_directory_v2_not_return
        split: option.splits)

lemma dispatch_v1_fs: "list_all is_fs_event (fst (dispatch_v1 srv h path))"
  by (simp add: dispatch_v1_def Let_def split: option.splits)

lemma dispatch_v2_fs: "list_all is_fs_event (fst (dispatch_v2 srv h path))"
  by (simp add: dispatch_v2_def Let_def split: option.splits)

lemma try_body_v1_fs: "list_all is_fs_event (fst (try_body_v1 srv h sock))"
  by (simp add: try_body_v1_def Let_def dispatch_v1_fs split: option.splits)

lemma try_body_v2_fs: "list_all is_fs_event (fst (try_body_v2 srv h sock))"
  by (simp add: try_body_v2_def Let_def dispatch_v2_fs split: option.splits)

lemma try_body_v1_return: "snd (try_body_v1 srv h sock) = Return \<longleftrightarrow> recv sock = Some []"
proof (cases "recv sock")
  case None
  then show ?thesis by (simp add: try_body_v1_def)
next
  case (Some b)
  show ?thesis
  proof (cases "utf8_decode False b")
    case None
    then have "b \<noteq> []" by (auto simp: utf8_decode_def)
    with None Some show ?thesis by (simp add: try_body_v1_def)
  next
    case (Some d)
    show ?thesis
    proof (cases "d = []")
      case True
      with Some have "b = []" using decode_nonempty by blast
      with Some \<open>recv sock = Some b\<close> True show ?thesis by (simp add: try_body_v1_def)
    next
      case False
      with Some have "b \<noteq> []" by (auto simp: utf8_decode_def)
      with Some \<open>recv sock = Some b\<close> False show ?thesis
        by (simp add: try_body_v1_def Let_def reply_not_return dispatch_v1_not_return)
    qed
  qed
qed

lemma try_body_v2_return: "snd (try_body_v2 srv h sock) = Return \<longleftrightarrow> recv sock = Some []"
proof (cases "recv sock")
  case None
  then show ?thesis by (simp add: try_body_v2_def)
next
  case (Some b)
  show ?thesis
  proof (cases "utf8_decode False b")
    case None
    then have "b \<noteq> []" by (auto simp: utf8_decode_def)
    with None Some show ?thesis by (simp add: try_body_v2_def)
  next
    case (Some d)
    show ?thesis
    proof (cases "d = []")
      case True
      with Some have "b = []" using decode_nonempty by blast
      with Some \<open>recv sock = Some b\<close> True show ?thesis by (simp add: try_body_v2_def)
    next
      case False
      with Some have "b \<noteq> []" by (auto simp: utf8_decode_def)
      with Some \<open>recv sock = Some b\<close> False show ?thesis
        by (simp add: try_body_v2_def Let_def reply_not_return dispatch_v2_not_return)
    qed
  qed
qed

lemma fs_event_not_close: "list_all is_fs_event evs \<Longrightarrow> Close \<notin> set evs"
  by (induction evs) auto

lemma trace_shape:
  assumes fs: "list_all is_fs_event evs"
    and hc: "t = fst (case st of
                 Return \<Rightarrow> (evs @ [Close], False)
               | Send r \<Rightarrow>
                   if r0 then (if r1 then (evs @ [SendallFailed r, SendallFailed e, Close], True)
                               else (evs @ [SendallFailed r, Sendall e, Close], False))
                   else (evs @ [Sendall r, Close], False)
               | Raise \<Rightarrow>
                   if r0 then (evs @ [SendallFailed e, Close], True)
                   else (evs @ [Sendall e, Close], False))"
  shows "(\<exists>es. t = es @ [Close] \<and> Close \<notin> set es)
       \<and> (st = Return \<longrightarrow> t = evs @ [Close])
       \<and> (st \<noteq> Return \<longrightarrow>
            (\<exists>es r rest. list_all is_fs_event es
               \<and> (t = es @ Sendall r # rest \<or> t = es @ SendallFailed r # rest)))
       \<and> (st \<noteq> Return \<and> \<not> r0 \<longrightarrow>
            (\<exists>es r. list_all is_fs_event es \<and> t = es @ [Sendall r, Close]))
       \<and> (st = Raise \<and> \<not> r0 \<longrightarrow> t = evs @ [Sendall e, Close])"
proof -
  have nc: "Close \<notin> set evs" using fs by (rule fs_event_not_close)
  show ?thesis
  proof (cases st)
    case Return
    with hc nc show ?thesis by simp
  next
    case (Send r)
    show ?thesis
    proof (cases r0)
      case False
      with Send hc have t: "t = evs @ [Sendall r, Close]" by simp
      have 1: "\<exists>es. t = es @ [Close] \<and> Close \<notin> set es"
        using t nc by (intro exI [of _ "evs @ [Sendall r]"]) simp
      have 2: "\<exists>es r rest. list_all is_fs_event es
                 \<and> (t = es @ Sendall r # rest \<or> t = es @ SendallFailed r # rest)"
        using t fs by blast
      have 3: "\<exists>es r. list_all is_fs_event es \<and> t = es @ [Sendall r, Close]"
        using t fs by blast
      show ?thesis using 1 2 3 Send by simp
    next
      case True
      with Send hc have t: "t = evs @ SendallFailed r # (if r1 then [SendallFailed e, Close] else [Sendall e, Close])"
        by simp
      have 1: "\<exists>es. t = es @ [Close] \<and> Close \<notin> set es"
        using t nc
        by (intro exI [of _ "evs @ SendallFailed r # (if r1 then [SendallFailed e] else [Sendall e])"]) simp
      have 2: "\<exists>es r rest. list_all is_fs_event es
                 \<and> (t = es @ Sendall r # rest \<or> t = es @ SendallFailed r # rest)"
        using t fs by blast
      show ?thesis using 1 2 Send True by simp
    qed
  next
    case Raise
    show ?thesis
    proof (cases r0)
      case False
      with Raise hc have t: "t = evs @ [Sendall e, Close]" by simp
      have 1: "\<exists>es. t = es @ [Close] \<and> Close \<notin> set es"
        using t nc by (intro exI [of _ "evs @ [Sendall e]"]) simp
      have 2: "\<exists>es r rest. list_all is_fs_event es
                 \<and> (t = es @ Sendall r # rest \<or> t = es @ SendallFailed r # rest)"
        using t fs by blast
      have 3: "\<exists>es r. list_all is_fs_event es \<and> t = es @ [Sendall r, Close]"
        using t fs by blast
      show ?thesis using 1 2 3 Raise t by simp
    next
      case True
      with Raise hc have t: "t = evs @ [SendallFailed e, Close]" by simp
      have 1: "\<exists>es. t = es @ [Close] \<and> Close \<notin> set es"
        using t nc by (intro exI [of _ "evs @ [SendallFailed e]"]) simp
      have 2: "\<exists>es r rest. list_all is_fs_event es
                 \<and> (t = es @ Sendall r # rest \<or> t = es @ SendallFailed r # rest)"
        using t fs by blast
      show ?thesis using 1 2 Raise True by simp
    qed
  qed
qed

lemma handle_client_v2_shape:
  "handle_client_v2 srv h sock =
     (case snd (try_body_v2 srv h sock) of
        Return \<Rightarrow> (fst (try_body_v2 srv h sock) @ [Close], False)
      | Send r \<Rightarrow>
          if sendall_raises sock 0
          then (if sendall_raises sock 1
                then (fst (try_body_v2 srv h sock) @ [SendallFailed r, SendallFailed internal_error_response, Close], True)
                else (fst (try_body_v2 srv h sock) @ [SendallFailed r, Sendall internal_error_response, Close], False))
          else (fst (try_body_v2 srv h sock) @ [Sendall r, Close], False)
      | Raise \<Rightarrow>
          if sendall_raises sock 0
          then (fst (try_body_v2 srv h sock) @ [SendallFailed internal_error_response, Close], True)
          else (fst (try_body_v2 srv h sock) @ [Sendall internal_error_response, Close], False))"
  unfolding handle_client_v2_def except_clause_v2_eq
  by (cases "try_body_v2 srv h sock") (simp split: step.splits)

lemma handle_client_v1_shape:
  "handle_client_v1 srv h sock =
     (case snd (try_body_v1 srv h sock) of
        Return \<Rightarrow> (fst (try_body_v1 srv h sock) @ [Close], False)
      | Send r \<Rightarrow>
          if sendall_raises sock 0
          then (if sendall_raises sock 1
                then (fst (try_body_v1 srv h sock) @ [SendallFailed r, SendallFailed internal_error_response, Close], True)
                else (fst (try_body_v1 srv h sock) @ [SendallFailed r, Sendall internal_error_response, Close], False))
          else (fst (try_body_v1 srv h sock) @ [Sendall r, Close], False)
      | Raise \<Rightarrow>
          if sendall_raises sock 0
          then (fst (try_body_v1 srv h sock) @ [SendallFailed internal_error_response, Close], True)
          else (fst (try_body_v1 srv h sock) @ [Sendall internal_error_response, Close], False))"
  unfolding handle_client_v1_def except_clause_v1_eq except_clause_v2_eq
  by (cases "try_body_v1 srv h sock") (simp split: step.splits)

lemma empty_read_v1: "recv sock = Some [] \<Longrightarrow> try_body_v1 srv h sock = ([], Return)"
  by (simp add: try_body_v1_def utf8_decode_def)

lemma empty_read_v2: "recv sock = Some [] \<Longrightarrow> try_body_v2 srv h sock = ([], Return)"
  by (simp add: try_body_v2_def utf8_decode_def)

lemma handle_client_v1_trace:
  "(\<exists>es. fst (handle_client_v1 srv h sock) = es @ [Close] \<and> Close \<notin> set es)
   \<and> (recv sock = Some [] \<longrightarrow> fst (handle_client_v1 srv h sock) = [Close])
   \<and> (recv sock \<noteq> Some [] \<longrightarrow>
        (\<exists>es r rest. list_all is_fs_event es
           \<and> (fst (handle_client_v1 srv h sock) = es @ Sendall r # rest
               \<or> fst (handle_client_v1 srv h sock) = es @ SendallFailed r # rest)))
   \<and> (recv sock \<noteq> Some [] \<and> \<not> sendall_raises sock 0 \<longrightarrow>
        (\<exists>es r. list_all is_fs_event es
           \<and> fst (handle_client_v1 srv h sock) = es @ [Sendall r, Close]))
   \<and> (snd (try_body_v1 srv h sock) = Raise \<and> \<not> sendall_raises sock 0 \<longrightarrow>
        fst (handle_client_v1 srv h sock)
          = fst (try_body_v1 srv h sock) @ [Sendall internal_error_response, Close])"
proof -
  note ts = trace_shape [OF try_body_v1_fs arg_cong [OF handle_client_v1_shape, of fst]]
  have emp: "recv sock = Some [] \<Longrightarrow> fst (try_body_v1 srv h sock) = []"
    by (simp add: empty_read_v1)
  have r: "snd (try_body_v1 srv h sock) = Return \<longleftrightarrow> recv sock = Some []"
    by (rule try_body_v1_return)
  show ?thesis
    using ts [of srv h sock] emp unfolding r by simp
qed

lemma handle_client_v2_trace:
  "(\<exists>es. fst (handle_client_v2 srv h sock) = es @ [Close] \<and> Close \<notin> set es)
   \<and> (recv sock = Some [] \<longrightarrow> fst (handle_client_v2 srv h sock) = [Close])
   \<and> (recv sock \<noteq> Some [] \<longrightarrow>
        (\<exists>es r rest. list_all is_fs_event es
           \<and> (fst (handle_client_v2 srv h sock) = es @ Sendall r # rest
               \<or> fst (handle_client_v2 srv h sock) = es @ SendallFailed r # rest)))
   \<and> (recv sock \<noteq> Some [] \<and> \<not> sendall_raises sock 0 \<longrightarrow>
        (\<exists>es r. list_all is_fs_event es
           \<and> fst (handle_client_v2 srv h sock) = es @ [Sendall r, Close]))
   \<and> (snd (try_body_v2 srv h sock) = Raise \<and> \<not> sendall_raises sock 0 \<longrightarrow>
        fst (handle_client_v2 srv h sock)
          = fst (try_body_v2 srv h sock) @ [Sendall internal_error_response, Close])"
proof -
  note ts = trace_shape [OF try_body_v2_fs arg_cong [OF handle_client_v2_shape, of fst]]
  have emp: "recv sock = Some [] \<Longrightarrow> fst (try_body_v2 srv h sock) = []"
    by (simp add: empty_read_v2)
  have r: "snd (try_body_v2 srv h sock) = Return \<longleftrightarrow> recv sock = Some []"
    by (rule try_body_v2_return)
  show ?thesis
    using ts [of srv h sock] emp unfolding r by simp
qed

text \<open>
  C2, as the code has it. Let \<open>t\<close> be the trace of either variant's handler on a
  connection and \<open>body\<close> what the \<^verbatim>\<open>try\<close> block did. The socket is closed
  exactly once, as the last event. If the first read returned zero bytes nothing
  is sent: the trace is the close alone. Otherwise at least one response is handed
  to \<^verbatim>\<open>sendall\<close> after the file-system calls; if the first \<^verbatim>\<open>sendall\<close> does
  not raise, exactly one response is sent and the close follows it at once; and
  when the \<^verbatim>\<open>try\<close> block raised, that response is the fixed 500 response.
\<close>

theorem one_response_then_close:
  assumes "(t, body) = (fst (handle_client_v1 srv h sock), try_body_v1 srv h sock)
         \<or> (t, body) = (fst (handle_client_v2 srv h sock), try_body_v2 srv h sock)"
  shows "(\<exists>es. t = es @ [Close] \<and> Close \<notin> set es)
       \<and> (recv sock = Some [] \<longrightarrow> t = [Close])
       \<and> (recv sock \<noteq> Some [] \<longrightarrow>
            (\<exists>es r rest. list_all is_fs_event es
               \<and> (t = es @ Sendall r # rest \<or> t = es @ SendallFailed r # rest)))
       \<and> (recv sock \<noteq> Some [] \<and> \<not> sendall_raises sock 0 \<longrightarrow>
            (\<exists>es r. list_all is_fs_event es \<and> t = es @ [Sendall r, Close]))
       \<and> (snd body = Raise \<and> \<not> sendall_raises sock 0 \<longrightarrow>
            t = fst body @ [Sendall internal_error_response, Close])"
proof -
  from assms consider
      (v1) "t = fst (handle_client_v1 srv h sock)" "body = try_body_v1 srv h sock"
    | (v2) "t = fst (handle_client_v2 srv h sock)" "body = try_body_v2 srv h sock"
    by auto
  then show ?thesis
  proof cases
    case v1
    show ?thesis unfolding v1 by (rule handle_client_v1_trace)
  next
    case v2
    show ?thesis unfolding v2 by (rule handle_client_v2_trace)
  qed
qed

lemma decode_get_docs_a:
  "utf8_decode False (''GET /docs/a.txt HTTP/1.1'' @ CRLF @ CRLF)
     = Some (ascii ''GET /docs/a.txt HTTP/1.1'' @ [13, 10, 13, 10])"
  by (simp add: utf8_decode_def emit_def)

theorem one_response_then_close_witness:
  "((fst (handle_client_v2 scenario_server scenario_host
            (connection (''GET /docs/a.txt HTTP/1.1'' @ CRLF @ CRLF))),
     try_body_v2 scenario_server scenario_host
            (connection (''GET /docs/a.txt HTTP/1.1'' @ CRLF @ CRLF)))
      = (fst (handle_client_v1 scenario_server scenario_host
            (connection (''GET /docs/a.txt HTTP/1.1'' @ CRLF @ CRLF))),
         try_body_v1 scenario_server scenario_host
            (connection (''GET /docs/a.txt HTTP/1.1'' @ CRLF @ CRLF)))
    \<or> (fst (handle_client_v2 scenario_server scenario_host
            (connection (''GET /docs/a.txt HTTP/1.1'' @ CRLF @ CRLF))),
        try_body_v2 scenario_server scenario_host
            (connection (''GET /docs/a.txt HTTP/1.1'' @ CRLF @ CRLF)))
      = (fst (handle_client_v2 scenario_server scenario_host
            (connection (''GET /docs/a.txt HTTP/1.1'' @ CRLF @ CRLF))),
         try_body_v2 scenario_server scenario_host
            (connection (''GET /docs/a.txt HTTP/1.1'' @ CRLF @ CRLF))))
   \<and> recv (connection (''GET /docs/a.txt HTTP/1.1'' @ CRLF @ CRLF)) \<noteq> Some []
   \<and> \<not> sendall_raises (connection (''GET /docs/a.txt HTTP/1.1'' @ CRLF @ CRLF)) 0
   \<and> (\<exists>es. fst (handle_client_v2 scenario_server scenario_host
                 (connection (''GET /docs/a.txt HTTP/1.1'' @ CRLF @ CRLF))) = es @ [Close]
           \<and> Close \<notin> set es)
   \<and> (\<exists>es r. list_all is_fs_event es
           \<and> fst (handle_client_v2 scenario_server scenario_host
                 (connection (''GET /docs/a.txt HTTP/1.1'' @ CRLF @ CRLF)))
               = es @ [Sendall r, Close])"
proof -
  have n: "recv (connection (''GET /docs/a.txt HTTP/1.1'' @ CRLF @ CRLF)) \<noteq> Some []"
    by (simp add: connection_def)
  have s: "\<not> sendall_raises (connection (''GET /docs/a.txt HTTP/1.1'' @ CRLF @ CRLF)) 0"
    by (simp add: connection_def)
  show ?thesis
    using n s one_response_then_close
      [of "fst (handle_client_v2 scenario_server scenario_host
                 (connection (''GET /docs/a.txt HTTP/1.1'' @ CRLF @ CRLF)))"
          "try_body_v2 scenario_server scenario_host
                 (connection (''GET /docs/a.txt HTTP/1.1'' @ CRLF @ CRLF))"
          scenario_server scenario_host
          "connection (''GET /docs/a.txt HTTP/1.1'' @ CRLF @ CRLF)"]
    by simp
qed

text \<open>C2 as stated fails: after a read of zero bytes the socket is closed and no
  response was produced, sent or attempted.\<close>

theorem empty_read_no_response:
  "fst (handle_client_v1 scenario_server scenario_host (connection [])) = [Close]
   \<and> fst (handle_client_v2 scenario_server scenario_host (connection [])) = [Close]"
  by (simp add: handle_client_v1_return [OF empty_read_v1] handle_client_v2_return [OF empty_read_v2]
        recv_connection)

section \<open>UTF-8: decoding undoes encoding\<close>

lemma emit_Some [simp]: "emit c (Some cs) = Some (c # cs)"
  by (simp add: emit_def)

lemma emit_None [simp]: "emit c None = None"
  by (simp add: emit_def)

lemma div_4096: "(c::nat) div 4096 = c div 64 div 64"
proof -
  have "c div (64 * 64) = c div 64 div 64" by (rule div_mult2_eq)
  then show ?thesis by simp
qed

lemma div_262144: "(c::nat) div 262144 = c div 64 div 64 div 64"
proof -
  have "c div (64 * (64 * 64)) = c div 64 div (64 * 64)" by (rule div_mult2_eq)
  also have "\<dots> = c div 64 div 64 div 64" by (rule div_mult2_eq)
  finally show ?thesis by simp
qed

lemma decode_one_octet:
  assumes "c < 0x80"
  shows "utf8_decode_values r (c # rest) = emit c (utf8_decode_values r rest)"
  using assms by simp

lemma decode_two_octets:
  assumes "0x80 \<le> c" "c < 0x800"
  shows "utf8_decode_values r ((0xC0 + c div 64) # (0x80 + c mod 64) # rest)
           = emit c (utf8_decode_values r rest)"
proof -
  have a: "2 \<le> c div 64" "c div 64 < 32" using assms by arith+
  have v: "c div 64 * 64 + c mod 64 = c" by simp
  show ?thesis using a v by (simp add: is_continuation_def)
qed

lemma decode_three_octets:
  assumes "0x800 \<le> c" "c < 0x10000" "\<not> (0xD800 \<le> c \<and> c < 0xE000)"
  shows "utf8_decode_values r
           ((0xE0 + c div 4096) # (0x80 + c div 64 mod 64) # (0x80 + c mod 64) # rest)
           = emit c (utf8_decode_values r rest)"
proof -
  define q where "q = c div 64"
  have c: "c = 64 * q + c mod 64" by (simp add: q_def)
  have d: "c mod 64 < 64" by simp
  have q: "32 \<le> q" "q < 1024" "\<not> (864 \<le> q \<and> q < 896)" using c d assms by linarith+
  define a where "a = q div 64"
  have qa: "q = 64 * a + q mod 64" by (simp add: a_def)
  have b: "q mod 64 < 64" by simp
  have a: "a < 16" using qa b q by linarith
  have lo: "a = 0 \<Longrightarrow> 32 \<le> q mod 64" using qa q by linarith
  have hi: "a = 13 \<Longrightarrow> q mod 64 < 32" using qa q b by linarith
  have v: "a * 4096 + q mod 64 * 64 + c mod 64 = c" using qa c by linarith
  have cond: "\<not> (if 0x80 + q mod 64 < 0xA0 then 0xE0 + a = 0xE0 else 0xE0 + a = 0xED)"
    using lo hi by (cases "a = 0") auto
  have "utf8_decode_values r ((0xE0 + a) # (0x80 + q mod 64) # (0x80 + c mod 64) # rest)
           = emit c (utf8_decode_values r rest)"
    using a b d v cond by (simp add: is_continuation_def)
  then show ?thesis by (simp add: div_4096 a_def q_def)
qed

lemma decode_four_octets:
  assumes "0x10000 \<le> c" "c < 0x110000"
  shows "utf8_decode_values r
           ((0xF0 + c div 262144) # (0x80 + c div 4096 mod 64)
            # (0x80 + c div 64 mod 64) # (0x80 + c mod 64) # rest)
           = emit c (utf8_decode_values r rest)"
proof -
  define q where "q = c div 64"
  have c: "c = 64 * q + c mod 64" by (simp add: q_def)
  have d: "c mod 64 < 64" by simp
  have q: "1024 \<le> q" "q < 17408" using c d assms by linarith+
  define p where "p = q div 64"
  have qp: "q = 64 * p + q mod 64" by (simp add: p_def)
  have b: "q mod 64 < 64" by simp
  have p: "16 \<le> p" "p < 272" using qp b q by linarith+
  define a where "a = p div 64"
  have pa: "p = 64 * a + p mod 64" by (simp add: a_def)
  have e: "p mod 64 < 64" by simp
  have a: "a < 5" using pa e p by linarith
  have lo: "a = 0 \<Longrightarrow> 16 \<le> p mod 64" using pa p by linarith
  have hi: "a = 4 \<Longrightarrow> p mod 64 < 16" using pa p e by linarith
  have v: "a * 262144 + p mod 64 * 4096 + q mod 64 * 64 + c mod 64 = c"
    using pa qp c by linarith
  have cond: "\<not> (if 0x80 + p mod 64 < 0x90 then 0xF0 + a = 0xF0 else 0xF0 + a = 0xF4)"
    using lo hi by (cases "a = 0") auto
  have "utf8_decode_values r
          ((0xF0 + a) # (0x80 + p mod 64) # (0x80 + q mod 64) # (0x80 + c mod 64) # rest)
           = emit c (utf8_decode_values r rest)"
    using a b d e v cond by (simp add: is_continuation_def)
  then show ?thesis by (simp add: div_262144 div_4096 a_def p_def q_def)
qed

lemma small_mod_256: "n < 256 \<Longrightarrow> n mod 256 = (n::nat)"
  by simp

lemma decode_encode_char:
  assumes "utf8_encode_char c = Some b"
  shows "utf8_decode_values r (map of_char b @ rest) = emit c (utf8_decode_values r rest)"
proof -
  consider (one) "c < 0x80" | (two) "0x80 \<le> c" "c < 0x800"
    | (three) "0x800 \<le> c" "c < 0x10000" "\<not> (0xD800 \<le> c \<and> c < 0xE000)"
    | (four) "0x10000 \<le> c" "c < 0x110000"
    | (none) "(0xD800 \<le> c \<and> c < 0xE000) \<or> 0x110000 \<le> c"
    by linarith
  then show ?thesis
  proof cases
    case one
    then have "b = [char_of c]" using assms by (simp add: utf8_encode_char_def)
    then show ?thesis using one decode_one_octet [OF one] by simp
  next
    case two
    then have b: "b = [char_of (0xC0 + c div 64), char_of (0x80 + c mod 64)]"
      using assms by (simp add: utf8_encode_char_def)
    have "0xC0 + c div 64 < 256" "0x80 + c mod 64 < 256" using two by arith+
    then show ?thesis using decode_two_octets [OF two] by (simp add: b)
  next
    case three
    then have b: "b = [char_of (0xE0 + c div 4096), char_of (0x80 + c div 64 mod 64),
                       char_of (0x80 + c mod 64)]"
      using assms by (auto simp: utf8_encode_char_def split: if_splits)
    have "c div 64 div 64 < 16" using three(2) by (simp add: less_mult_imp_div_less)
    then have "0xE0 + c div 4096 < 256" by (simp add: div_4096)
    moreover have "0x80 + c div 64 mod 64 < 256" "0x80 + c mod 64 < 256" by arith+
    ultimately show ?thesis using decode_three_octets [OF three] by (simp add: b)
  next
    case four
    then have b: "b = [char_of (0xF0 + c div 262144), char_of (0x80 + c div 4096 mod 64),
                       char_of (0x80 + c div 64 mod 64), char_of (0x80 + c mod 64)]"
      using assms by (simp add: utf8_encode_char_def)
    have "c div 64 div 64 div 64 < 5" using four(2) by (simp add: less_mult_imp_div_less)
    then have "0xF0 + c div 262144 < 256" by (simp add: div_262144)
    moreover have "0x80 + c div 4096 mod 64 < 256" "0x80 + c div 64 mod 64 < 256"
      "0x80 + c mod 64 < 256" by arith+
    ultimately show ?thesis using decode_four_octets [OF four] by (simp add: b)
  next
    case none
    then have False using assms by (auto simp: utf8_encode_char_def split: if_splits)
    then show ?thesis ..
  qed
qed

lemma decode_encode_values:
  "utf8_encode cs = Some bs \<Longrightarrow> utf8_decode_values r (map of_char bs) = Some cs"
proof (induction cs arbitrary: bs)
  case Nil
  then show ?case by simp
next
  case (Cons c cs)
  from Cons.prems obtain b1 b2 where
    c: "utf8_encode_char c = Some b1" and cs: "utf8_encode cs = Some b2" and bs: "bs = b1 @ b2"
    by (auto split: option.splits)
  show ?case
    using decode_encode_char [OF c, of r "map of_char b2"] Cons.IH [OF cs]
    by (simp add: bs)
qed

lemma decode_encode: "utf8_encode cs = Some bs \<Longrightarrow> utf8_decode r bs = Some cs"
  by (simp add: utf8_decode_def decode_encode_values)

section \<open>Percent-decoding undoes percent-encoding\<close>

lemma decode_ascii_values:
  "list_all (\<lambda>c::nat. c < 0x80) v \<Longrightarrow> utf8_decode_values r v = Some v"
  by (induction v) simp_all

lemma hex_digit_is_hexdig: "n < 16 \<Longrightarrow> is_hexdig (hex_digit n)"
  by (simp add: hex_digit_def is_hexdig_def)

lemma hex_value_hex_digit: "n < 16 \<Longrightarrow> hex_value (hex_digit n) = n"
  by (simp add: hex_digit_def hex_value_def)

lemma hex_digit_ascii: "n < 16 \<Longrightarrow> hex_digit n < 0x80"
  by (simp add: hex_digit_def)

lemma unquote_to_bytes_quote_octet:
  assumes "b < 256"
  shows "unquote_to_bytes (quote_octet b @ rest) = b # unquote_to_bytes rest"
proof (cases "is_unreserved b")
  case True
  then have "b \<noteq> 37" by (auto simp: is_unreserved_def)
  with True show ?thesis by (simp add: quote_octet_def)
next
  case False
  have hi: "b div 16 < 16" using assms by (simp add: less_mult_imp_div_less)
  have lo: "b mod 16 < 16" by simp
  have v: "16 * (b div 16) + b mod 16 = b" by simp
  show ?thesis
    using False hex_digit_is_hexdig [OF hi] hex_digit_is_hexdig [OF lo] v
    by (simp add: quote_octet_def hex_value_hex_digit [OF hi] hex_value_hex_digit [OF lo])
qed

lemma unquote_to_bytes_quote: "unquote_to_bytes (quote bs) = map of_char bs"
  by (induction bs) (simp_all add: quote_def unquote_to_bytes_quote_octet)

lemma quote_octet_ascii: "b < 256 \<Longrightarrow> list_all (\<lambda>c::nat. c < 0x80) (quote_octet b)"
proof -
  assume "b < 256"
  then have "b div 16 < 16" by (simp add: less_mult_imp_div_less)
  moreover have "b mod 16 < 16" by simp
  ultimately show ?thesis
    by (auto simp: quote_octet_def is_unreserved_def hex_digit_ascii)
qed

lemma quote_ascii: "list_all (\<lambda>c::nat. c < 0x80) (quote bs)"
  by (induction bs) (simp_all add: quote_def quote_octet_ascii)

lemma unquote_parts_ascii:
  "list_all (\<lambda>c::nat. c < 0x80) s \<Longrightarrow> unquote_parts run s = unquote_ascii (run @ s)"
  by (induction s arbitrary: run) simp_all

lemma quote_without_percent:
  "37 \<notin> set (quote bs) \<Longrightarrow>
   quote bs = map of_char bs \<and> list_all (\<lambda>c::nat. c < 0x80) (map of_char bs)"
proof (induction bs)
  case Nil
  then show ?case by (simp add: quote_def)
next
  case (Cons b bs)
  from Cons.prems have u: "is_unreserved (of_char b)"
    by (auto simp: quote_def quote_octet_def split: if_splits)
  then have a: "(of_char b :: nat) < 0x80" by (auto simp: is_unreserved_def)
  from Cons.prems have "37 \<notin> set (quote bs)" by (simp add: quote_def)
  from Cons.IH [OF this] u a show ?case by (simp add: quote_def quote_octet_def)
qed

text \<open>What the server's \<^verbatim>\<open>unquote\<close> makes of a percent-encoded path is the
  path itself, whatever characters it holds.\<close>

lemma unquote_quote:
  assumes "utf8_encode path = Some bs"
  shows "unquote (quote bs) = path"
proof -
  have d: "utf8_decode_values True (map of_char bs) = Some path"
    using assms by (rule decode_encode_values)
  show ?thesis
  proof (cases "37 \<in> set (quote bs)")
    case True
    then show ?thesis
      by (simp add: unquote_def unquote_parts_ascii [OF quote_ascii] unquote_ascii_def
            unquote_to_bytes_quote d)
  next
    case False
    from quote_without_percent [OF False] have q: "quote bs = map of_char bs"
      and a: "list_all (\<lambda>c::nat. c < 0x80) (map of_char bs)" by simp_all
    from decode_ascii_values [OF a, of True] d have "path = map of_char bs" by simp
    with False q show ?thesis by (simp add: unquote_def)
  qed
qed

text \<open>Decoding with \<^verbatim>\<open>errors='replace'\<close> never raises.\<close>

lemma emit_total: "r \<noteq> None \<Longrightarrow> emit c r \<noteq> None"
  by (cases r) simp_all

lemma ill_formed_total: "r \<noteq> None \<Longrightarrow> ill_formed True r \<noteq> None"
  by (simp add: ill_formed_def emit_total)

lemma unexpected_end_total: "unexpected_end True \<noteq> None"
  by (simp add: unexpected_end_def)

lemma decode_replace_total_aux:
  "length v \<le> n \<Longrightarrow> utf8_decode_values True v \<noteq> None"
proof (induction n arbitrary: v)
  case 0
  then show ?case by simp
next
  case (Suc n)
  show ?case
  proof (cases v)
    case Nil
    then show ?thesis by simp
  next
    case (Cons ch s)
    have ih: "\<And>w. length w \<le> length s \<Longrightarrow> utf8_decode_values True w \<noteq> None"
      using Suc.IH Suc.prems Cons by simp
    show ?thesis
      unfolding Cons
      apply (subst utf8_decode_values.simps)
      apply (simp del: utf8_decode_values.simps not_None_eq
               add: ih emit_total ill_formed_total unexpected_end_total split: list.split)
      done
  qed
qed

lemma decode_replace_total: "utf8_decode_values True v \<noteq> None"
  using decode_replace_total_aux [of v "length v"] by simp

lemmas path_eval = lstrip_def path_join_def abspath_def normpath_def normpath_step_def
  startswith_def endswith_def Let_def

lemmas host_eval = scenario_host_def scenario_files_def scenario_dirs_def
  resolve_def walk_step_def parent_dir_def

lemma scenario_root: "root_dir scenario_server = ascii ''/srv/root''"
  by (simp add: scenario_server_def init_server_def scenario_host_def path_eval)

section \<open>Percent-decoding of the path\<close>

text \<open>
  C8, as the code has it. In the extended variant the path token of a \<^verbatim>\<open>GET\<close>
  request is percent-decoded before it is resolved: when the token is the
  percent-encoding of the UTF-8 octets of a path, the handler dispatches on that
  path itself, whatever characters it holds, and when the file it names under the
  root is a readable regular file, that is the file the handler opens. (The
  minimal variant resolves the token as it was received.)
\<close>

theorem percent_encoded_path_is_decoded:
  assumes "recv sock = Some received" "utf8_decode False received = Some request_data"
    "split_whitespace (first_line request_data) = ascii ''GET'' # quote octets # rest"
    "utf8_encode path = Some octets"
    "abs_path = abspath (getcwd h) (path_join (root_dir srv) (lstrip 47 path))"
  shows "try_body_v2 srv h sock = dispatch_v2 srv h path
       \<and> (path \<noteq> ascii ''/'' \<and> startswith abs_path (root_dir srv) \<and> \<not> isdir h abs_path
            \<and> isfile h abs_path \<and> access_r h abs_path \<and> open_rb h abs_path \<noteq> None
          \<longrightarrow> fst (try_body_v2 srv h sock)
                = [IsDir abs_path, IsFile abs_path, Access abs_path, Open abs_path])"
proof -
  have 1: "try_body_v2 srv h sock = dispatch_v2 srv h path"
    using try_body_v2_get [OF assms(1,2,3), of srv h] unquote_quote [OF assms(4)] by simp
  show ?thesis
    unfolding 1 assms(5) by (auto simp: dispatch_v2_def Let_def)
qed

lemma decode_get_zh:
  "utf8_decode False (''GET /%E4%B8%AD.txt HTTP/1.1'' @ CRLF @ CRLF)
     = Some (ascii ''GET /%E4%B8%AD.txt HTTP/1.1'' @ [13, 10, 13, 10])"
  by (simp add: utf8_decode_def)

lemma parts_get_zh:
  "split_whitespace (first_line (ascii ''GET /%E4%B8%AD.txt HTTP/1.1'' @ [13, 10, 13, 10]))
     = ascii ''GET'' # quote (''/'' @ [CHR 0xE4, CHR 0xB8, CHR 0xAD] @ ''.txt'') # [ascii ''HTTP/1.1'']"
  by (simp add: split_whitespace_def isspace_def quote_def quote_octet_def is_unreserved_def
        hex_digit_def)

lemma encode_zh:
  "utf8_encode (47 # 0x4E2D # ascii ''.txt'') = Some (''/'' @ [CHR 0xE4, CHR 0xB8, CHR 0xAD] @ ''.txt'')"
  by (simp add: utf8_encode_char_def char_of_eq_iff)

lemma abspath_zh:
  "ascii ''/srv/root/'' @ 0x4E2D # ascii ''.txt''
     = abspath (getcwd scenario_host)
         (path_join (root_dir scenario_server) (lstrip 47 (47 # 0x4E2D # ascii ''.txt'')))"
  by (simp add: scenario_root path_eval scenario_host_def)

lemma dispatch_v2_zh:
  "dispatch_v2 scenario_server scenario_host (47 # 0x4E2D # ascii ''.txt'') =
     ([IsDir (ascii ''/srv/root/'' @ 0x4E2D # ascii ''.txt''),
       IsFile (ascii ''/srv/root/'' @ 0x4E2D # ascii ''.txt''),
       Access (ascii ''/srv/root/'' @ 0x4E2D # ascii ''.txt''),
       Open (ascii ''/srv/root/'' @ 0x4E2D # ascii ''.txt'')],
      Send (''HTTP/1.1 200 OK'' @ CRLF @ ''Server: SimplePythonWebServer'' @ CRLF
            @ ''Connection: close'' @ CRLF @ ''Content-Length: 2'' @ CRLF
            @ ''Content-Type: text/plain'' @ CRLF @ CRLF @ ''zh''))"
  by (simp add: dispatch_v2_def scenario_root host_eval path_eval download_extensions_def
        reply_def response_defs)

theorem percent_encoded_path_is_decoded_witness:
  "recv (connection (''GET /%E4%B8%AD.txt HTTP/1.1'' @ CRLF @ CRLF))
     = Some (''GET /%E4%B8%AD.txt HTTP/1.1'' @ CRLF @ CRLF)
   \<and> utf8_decode False (''GET /%E4%B8%AD.txt HTTP/1.1'' @ CRLF @ CRLF)
       = Some (ascii ''GET /%E4%B8%AD.txt HTTP/1.1'' @ [13, 10, 13, 10])
   \<and> split_whitespace (first_line (ascii ''GET /%E4%B8%AD.txt HTTP/1.1'' @ [13, 10, 13, 10]))
       = ascii ''GET'' # quote (''/'' @ [CHR 0xE4, CHR 0xB8, CHR 0xAD] @ ''.txt'')
           # [ascii ''HTTP/1.1'']
   \<and> utf8_encode (47 # 0x4E2D # ascii ''.txt'')
       = Some (''/'' @ [CHR 0xE4, CHR 0xB8, CHR 0xAD] @ ''.txt'')
   \<and> ascii ''/srv/root/'' @ 0x4E2D # ascii ''.txt''
       = abspath (getcwd scenario_host)
           (path_join (root_dir scenario_server) (lstrip 47 (47 # 0x4E2D # ascii ''.txt'')))
   \<and> try_body_v2 scenario_server scenario_host
         (connection (''GET /%E4%B8%AD.txt HTTP/1.1'' @ CRLF @ CRLF))
       = dispatch_v2 scenario_server scenario_host (47 # 0x4E2D # ascii ''.txt'')
   \<and> handle_client_v2 scenario_server scenario_host
         (connection (''GET /%E4%B8%AD.txt HTTP/1.1'' @ CRLF @ CRLF))
       = ([IsDir (ascii ''/srv/root/'' @ 0x4E2D # ascii ''.txt''),
           IsFile (ascii ''/srv/root/'' @ 0x4E2D # ascii ''.txt''),
           Access (ascii ''/srv/root/'' @ 0x4E2D # ascii ''.txt''),
           Open (ascii ''/srv/root/'' @ 0x4E2D # ascii ''.txt''),
           Sendall (''HTTP/1.1 200 OK'' @ CRLF @ ''Server: SimplePythonWebServer'' @ CRLF
             @ ''Connection: close'' @ CRLF @ ''Content-Length: 2'' @ CRLF
             @ ''Content-Type: text/plain'' @ CRLF @ CRLF @ ''zh''),
           Close], False)"
proof -
  note t = percent_encoded_path_is_decoded
             [OF recv_connection decode_get_zh parts_get_zh encode_zh abspath_zh]
  from t have b: "try_body_v2 scenario_server scenario_host
         (connection (''GET /%E4%B8%AD.txt HTTP/1.1'' @ CRLF @ CRLF))
       = dispatch_v2 scenario_server scenario_host (47 # 0x4E2D # ascii ''.txt'')"
    by (rule conjunct1)
  have s: "\<not> sendall_raises (connection (''GET /%E4%B8%AD.txt HTTP/1.1'' @ CRLF @ CRLF)) 0"
    by (simp add: connection_def)
  have h: "handle_client_v2 scenario_server scenario_host
         (connection (''GET /%E4%B8%AD.txt HTTP/1.1'' @ CRLF @ CRLF))
       = ([IsDir (ascii ''/srv/root/'' @ 0x4E2D # ascii ''.txt''),
           IsFile (ascii ''/srv/root/'' @ 0x4E2D # ascii ''.txt''),
           Access (ascii ''/srv/root/'' @ 0x4E2D # ascii ''.txt''),
           Open (ascii ''/srv/root/'' @ 0x4E2D # ascii ''.txt'')]
          @ [Sendall (''HTTP/1.1 200 OK'' @ CRLF @ ''Server: SimplePythonWebServer'' @ CRLF
             @ ''Connection: close'' @ CRLF @ ''Content-Length: 2'' @ CRLF
             @ ''Content-Type: text/plain'' @ CRLF @ CRLF @ ''zh''),
           Close], False)"
    using handle_client_v2_send [OF trans [OF b dispatch_v2_zh]] s by simp
  show ?thesis
    using recv_connection decode_get_zh parts_get_zh encode_zh abspath_zh b h by simp
qed

text \<open>C8 as stated fails on the minimal variant: the path token is resolved as
  received, so the request for the percent-encoded name of an existing file looks
  for a file whose name holds the percent signs, and answers 404.\<close>

lemma decode_get_zh_parts:
  "split_whitespace (first_line (ascii ''GET /%E4%B8%AD.txt HTTP/1.1'' @ [13, 10, 13, 10]))
     = ascii ''GET'' # ascii ''/%E4%B8%AD.txt'' # [ascii ''HTTP/1.1'']"
  by (simp add: split_whitespace_def isspace_def)

lemma dispatch_v1_zh:
  "dispatch_v1 scenario_server scenario_host (ascii ''/%E4%B8%AD.txt'') =
     ([IsFile (ascii ''/srv/root/%E4%B8%AD.txt'')],
      Send (''HTTP/1.1 404 Not Found'' @ CRLF @ ''Server: SimplePythonWebServer'' @ CRLF
           @ ''Connection: close'' @ CRLF @ ''Content-Length: 22'' @ CRLF
           @ ''Content-Type: text/html'' @ CRLF @ CRLF @ ''<h1>404 Not Found</h1>''))"
  by (simp add: dispatch_v1_def scenario_root host_eval path_eval reply_def
        create_response_v1_eq response_defs)

theorem minimal_variant_does_not_decode:
  "handle_client_v1 scenario_server scenario_host
     (connection (''GET /%E4%B8%AD.txt HTTP/1.1'' @ CRLF @ CRLF))
   = ([IsFile (ascii ''/srv/root/%E4%B8%AD.txt''),
       Sendall (''HTTP/1.1 404 Not Found'' @ CRLF @ ''Server: SimplePythonWebServer'' @ CRLF
           @ ''Connection: close'' @ CRLF @ ''Content-Length: 22'' @ CRLF
           @ ''Content-Type: text/html'' @ CRLF @ CRLF @ ''<h1>404 Not Found</h1>''),
       Close], False)"
proof -
  have s: "\<not> sendall_raises (connection (''GET /%E4%B8%AD.txt HTTP/1.1'' @ CRLF @ CRLF)) 0"
    by (simp add: connection_def)
  show ?thesis
    using handle_client_v1_send
            [OF trans [OF try_body_v1_get [OF recv_connection decode_get_zh decode_get_zh_parts]
                          dispatch_v1_zh]] s
    by simp
qed

section \<open>Directory pages\<close>

lemma utf8_encode_append:
  "utf8_encode (a @ b) =
     (case utf8_encode a of
        None \<Rightarrow> None
      | Some x \<Rightarrow> (case utf8_encode b of None \<Rightarrow> None | Some y \<Rightarrow> Some (x @ y)))"
  by (induction a) (simp_all split: option.splits)

lemma utf8_encode_ascii:
  "list_all (\<lambda>c::nat. c < 0x80) cs \<Longrightarrow> utf8_encode cs = Some (map char_of cs)"
  by (induction cs) (simp_all add: utf8_encode_char_def)

lemma str_of_nat_ascii: "list_all (\<lambda>c::nat. c < 0x80) (str_of_nat n)"
proof (induction n rule: str_of_nat.induct)
  case (1 n)
  show ?case
  proof (cases "n < 10")
    case True
    then show ?thesis by (subst str_of_nat.simps) simp
  next
    case False
    have "n mod 10 < 10" by simp
    then have "48 + n mod 10 < 128" by linarith
    with False 1 show ?thesis by (subst str_of_nat.simps) simp
  qed
qed

lemma str_of_nat_200: "str_of_nat 200 = ascii ''200''"
  by (simp add: str_of_nat.simps)

lemma fold_append_concat:
  "fold (\<lambda>item content. content @ f item) items acc = acc @ concat (map f items)"
  by (induction items arbitrary: acc) simp_all

text \<open>The page is the heading, one item per entry in the order of the listing, and
  the closing tag.\<close>

lemma listing_html_eq:
  "listing_html path items =
     ascii ''<h1>'' @ [0x76EE, 0x5F55, 0x5217, 0x8868, 0xFF1A] @ path @ ascii ''</h1><ul>''
     @ concat (map (listing_item path) items) @ ascii ''</ul>''"
  by (simp add: listing_html_def fold_append_concat)

lemma listing_html_nonempty: "listing_html path items \<noteq> []"
  by (simp add: listing_html_eq)

text \<open>\<^verbatim>\<open>create_response\<close> on a non-empty \<^verbatim>\<open>str\<close> body: the header
  \<^verbatim>\<open>Content-Length\<close> is the number of characters of the string; the body sent is
  its UTF-8 encoding.\<close>

lemma create_response_200_str:
  assumes "s \<noteq> []" "utf8_encode s = Some body"
  shows "create_response_v2 200 (ascii ''OK'') (Str s) (ascii ''text/html'') [] =
           Some (''HTTP/1.1 200 OK'' @ CRLF @ ''Server: SimplePythonWebServer'' @ CRLF
                 @ ''Connection: close'' @ CRLF
                 @ ''Content-Length: '' @ map char_of (str_of_nat (length s)) @ CRLF
                 @ ''Content-Type: text/html'' @ CRLF @ CRLF @ body)"
  using assms
  by (simp add: create_response_v2_def response_headers_def truthy_def content_len_def
        content_bytes_def header_line_def Let_def str_of_nat_200 utf8_encode_append
        utf8_encode_ascii [OF str_of_nat_ascii] utf8_encode_char_def char_of_eq_iff)

text \<open>
  C4, as the code has it. In the extended variant, a \<^verbatim>\<open>GET\<close> request whose
  decoded path resolves, within the root by the prefix test, to an existing
  directory whose listing succeeds and whose page can be encoded gets the response
  200 with content type \<^verbatim>\<open>text/html\<close>; its body is the UTF-8 encoding of the
  page, which is a heading followed by exactly one list item with a hyperlink for
  each name \<^verbatim>\<open>os.listdir\<close> returned (the immediate children, no recursion), in
  that order. The \<^verbatim>\<open>Content-Length\<close> written is the number of characters of
  the page. (The minimal variant has no directory pages.)
\<close>

theorem directory_gets_listing:
  assumes "recv sock = Some received" "utf8_decode False received = Some request_data"
    "split_whitespace (first_line request_data) = ascii ''GET'' # raw_path # rest"
    "path = (if unquote raw_path = ascii ''/'' then ascii ''/index.html'' else unquote raw_path)"
    "abs_path = abspath (getcwd h) (path_join (root_dir srv) (lstrip 47 path))"
    "startswith abs_path (root_dir srv)" "isdir h abs_path" "listdir h abs_path = Some items"
    "utf8_encode (listing_html path items) = Some body"
    "response = ''HTTP/1.1 200 OK'' @ CRLF @ ''Server: SimplePythonWebServer'' @ CRLF
                 @ ''Connection: close'' @ CRLF
                 @ ''Content-Length: '' @ map char_of (str_of_nat (length (listing_html path items)))
                 @ CRLF @ ''Content-Type: text/html'' @ CRLF @ CRLF @ body"
  shows "handle_client_v2 srv h sock =
           (if sendall_raises sock 0
            then except_clause_v2 sock 1 [IsDir abs_path, ListDir abs_path, SendallFailed response]
            else ([IsDir abs_path, ListDir abs_path, Sendall response, Close], False))
       \<and> listing_html path items =
           ascii ''<h1>'' @ [0x76EE, 0x5F55, 0x5217, 0x8868, 0xFF1A] @ path @ ascii ''</h1><ul>''
           @ concat (map (listing_item path) items) @ ascii ''</ul>''
       \<and> length (map (listing_item path) items) = length items"
proof -
  have r: "create_response_v2 200 (ascii ''OK'') (Str (listing_html path items))
             (ascii ''text/html'') [] = Some response"
    unfolding assms(10) using listing_html_nonempty assms(9) by (rule create_response_200_str)
  have d: "dispatch_v2 srv h (unquote raw_path)
             = ([IsDir abs_path, ListDir abs_path], Send response)"
    unfolding dispatch_v2_def Let_def assms(4) [symmetric] assms(5) [symmetric]
    using assms(6,7,8) r by (simp add: list_directory_v2_def)
  have t: "try_body_v2 srv h sock = ([IsDir abs_path, ListDir abs_path], Send response)"
    using try_body_v2_get [OF assms(1,2,3), of srv h] d by simp
  show ?thesis
    using handle_client_v2_send [OF t] by (simp add: listing_html_eq)
qed

lemma char_eq_char_of: "(c = char_of (n::nat)) = (take_bit 8 n = of_char c)"
  using char_of_eq_iff [of n c] by auto

lemma decode_get_docs_slash:
  "utf8_decode False (''GET /docs/ HTTP/1.1'' @ CRLF @ CRLF)
     = Some (ascii ''GET /docs/ HTTP/1.1'' @ [13, 10, 13, 10])"
  by (simp add: utf8_decode_def)

lemma parts_get_docs_slash:
  "split_whitespace (first_line (ascii ''GET /docs/ HTTP/1.1'' @ [13, 10, 13, 10]))
     = ascii ''GET'' # ascii ''/docs/'' # [ascii ''HTTP/1.1'']"
  by (simp add: split_whitespace_def isspace_def)

lemma path_docs_slash:
  "ascii ''/docs/'' = (if unquote (ascii ''/docs/'') = ascii ''/'' then ascii ''/index.html''
                       else unquote (ascii ''/docs/''))"
  by (simp add: unquote_def)

lemma abspath_docs_slash:
  "ascii ''/srv/root/docs''
     = abspath (getcwd scenario_host)
         (path_join (root_dir scenario_server) (lstrip 47 (ascii ''/docs/'')))"
  by (simp add: scenario_root path_eval scenario_host_def)

lemma docs_within_root: "startswith (ascii ''/srv/root/docs'') (root_dir scenario_server)"
  by (simp add: scenario_root startswith_def)

lemma docs_isdir: "isdir scenario_host (ascii ''/srv/root/docs'')"
  by (simp add: host_eval path_eval)

lemma docs_listdir: "listdir scenario_host (ascii ''/srv/root/docs'') = Some [ascii ''a.txt'']"
  by (simp add: host_eval path_eval)

lemma docs_slash_page:
  "utf8_encode (listing_html (ascii ''/docs/'') [ascii ''a.txt''])
     = Some (''<h1>'' @ [CHR 0xE7, CHR 0x9B, CHR 0xAE, CHR 0xE5, CHR 0xBD, CHR 0x95, CHR 0xE5,
                        CHR 0x88, CHR 0x97, CHR 0xE8, CHR 0xA1, CHR 0xA8, CHR 0xEF, CHR 0xBC, CHR 0x9A]
             @ ''/docs/</h1><ul><li><a href='' @ [CHR 0x22] @ ''/docs/a.txt'' @ [CHR 0x22]
             @ ''>a.txt</a></li></ul>'')"
  by (simp add: listing_html_def listing_item_def replace_backslash_def path_join_def
        startswith_def endswith_def utf8_encode_char_def char_of_eq_iff)

lemma docs_slash_response:
  "''HTTP/1.1 200 OK'' @ CRLF @ ''Server: SimplePythonWebServer'' @ CRLF
     @ ''Connection: close'' @ CRLF @ ''Content-Length: 69'' @ CRLF
     @ ''Content-Type: text/html'' @ CRLF @ CRLF
     @ ''<h1>'' @ [CHR 0xE7, CHR 0x9B, CHR 0xAE, CHR 0xE5, CHR 0xBD, CHR 0x95, CHR 0xE5,
                  CHR 0x88, CHR 0x97, CHR 0xE8, CHR 0xA1, CHR 0xA8, CHR 0xEF, CHR 0xBC, CHR 0x9A]
     @ ''/docs/</h1><ul><li><a href='' @ [CHR 0x22] @ ''/docs/a.txt'' @ [CHR 0x22]
     @ ''>a.txt</a></li></ul>''
   = ''HTTP/1.1 200 OK'' @ CRLF @ ''Server: SimplePythonWebServer'' @ CRLF
     @ ''Connection: close'' @ CRLF
     @ ''Content-Length: ''
     @ map char_of (str_of_nat (length (listing_html (ascii ''/docs/'') [ascii ''a.txt''])))
     @ CRLF @ ''Content-Type: text/html'' @ CRLF @ CRLF
     @ ''<h1>'' @ [CHR 0xE7, CHR 0x9B, CHR 0xAE, CHR 0xE5, CHR 0xBD, CHR 0x95, CHR 0xE5,
                  CHR 0x88, CHR 0x97, CHR 0xE8, CHR 0xA1, CHR 0xA8, CHR 0xEF, CHR 0xBC, CHR 0x9A]
     @ ''/docs/</h1><ul><li><a href='' @ [CHR 0x22] @ ''/docs/a.txt'' @ [CHR 0x22]
     @ ''>a.txt</a></li></ul>''"
  by (simp add: listing_html_def listing_item_def replace_backslash_def path_join_def
        startswith_def endswith_def str_of_nat.simps char_eq_char_of)

theorem directory_gets_listing_witness:
  "recv (connection (''GET /docs/ HTTP/1.1'' @ CRLF @ CRLF))
     = Some (''GET /docs/ HTTP/1.1'' @ CRLF @ CRLF)
   \<and> utf8_decode False (''GET /docs/ HTTP/1.1'' @ CRLF @ CRLF)
       = Some (ascii ''GET /docs/ HTTP/1.1'' @ [13, 10, 13, 10])
   \<and> split_whitespace (first_line (ascii ''GET /docs/ HTTP/1.1'' @ [13, 10, 13, 10]))
       = ascii ''GET'' # ascii ''/docs/'' # [ascii ''HTTP/1.1'']
   \<and> ascii ''/srv/root/docs''
       = abspath (getcwd scenario_host)
           (path_join (root_dir scenario_server) (lstrip 47 (ascii ''/docs/'')))
   \<and> startswith (ascii ''/srv/root/docs'') (root_dir scenario_server)
   \<and> isdir scenario_host (ascii ''/srv/root/docs'')
   \<and> listdir scenario_host (ascii ''/srv/root/docs'') = Some [ascii ''a.txt'']
   \<and> handle_client_v2 scenario_server scenario_host
         (connection (''GET /docs/ HTTP/1.1'' @ CRLF @ CRLF))
       = ([IsDir (ascii ''/srv/root/docs''), ListDir (ascii ''/srv/root/docs''),
           Sendall (''HTTP/1.1 200 OK'' @ CRLF @ ''Server: SimplePythonWebServer'' @ CRLF
             @ ''Connection: close'' @ CRLF @ ''Content-Length: 69'' @ CRLF
             @ ''Content-Type: text/html'' @ CRLF @ CRLF
             @ ''<h1>'' @ [CHR 0xE7, CHR 0x9B, CHR 0xAE, CHR 0xE5, CHR 0xBD, CHR 0x95, CHR 0xE5,
                  CHR 0x88, CHR 0x97, CHR 0xE8, CHR 0xA1, CHR 0xA8, CHR 0xEF, CHR 0xBC, CHR 0x9A]
             @ ''/docs/</h1><ul><li><a href='' @ [CHR 0x22] @ ''/docs/a.txt'' @ [CHR 0x22]
             @ ''>a.txt</a></li></ul>''),
           Close], False)"
proof -
  have s: "\<not> sendall_raises (connection (''GET /docs/ HTTP/1.1'' @ CRLF @ CRLF)) 0"
    by (simp add: connection_def)
  note t = directory_gets_listing
             [OF recv_connection decode_get_docs_slash parts_get_docs_slash path_docs_slash
                 abspath_docs_slash docs_within_root docs_isdir docs_listdir docs_slash_page
                 docs_slash_response]
  show ?thesis
    using recv_connection decode_get_docs_slash parts_get_docs_slash abspath_docs_slash
      docs_within_root docs_isdir docs_listdir s t
    by simp
qed

text \<open>C4 as stated fails on the minimal variant, which has no directory pages: a
  request for an existing directory under the root is answered 404.\<close>

lemma docs_slash_isdir: "isdir scenario_host (ascii ''/srv/root/docs/'')"
  by (simp add: host_eval path_eval)

lemma dispatch_v1_docs_slash:
  "dispatch_v1 scenario_server scenario_host (ascii ''/docs/'') =
     ([IsFile (ascii ''/srv/root/docs/'')],
      Send (''HTTP/1.1 404 Not Found'' @ CRLF @ ''Server: SimplePythonWebServer'' @ CRLF
           @ ''Connection: close'' @ CRLF @ ''Content-Length: 22'' @ CRLF
           @ ''Content-Type: text/html'' @ CRLF @ CRLF @ ''<h1>404 Not Found</h1>''))"
  by (simp add: dispatch_v1_def scenario_root host_eval path_eval reply_def
        create_response_v1_eq response_defs)

theorem minimal_variant_lists_no_directory:
  "isdir scenario_host (ascii ''/srv/root/docs/'')
   \<and> handle_client_v1 scenario_server scenario_host
         (connection (''GET /docs/ HTTP/1.1'' @ CRLF @ CRLF))
       = ([IsFile (ascii ''/srv/root/docs/''),
           Sendall (''HTTP/1.1 404 Not Found'' @ CRLF @ ''Server: SimplePythonWebServer'' @ CRLF
             @ ''Connection: close'' @ CRLF @ ''Content-Length: 22'' @ CRLF
             @ ''Content-Type: text/html'' @ CRLF @ CRLF @ ''<h1>404 Not Found</h1>''),
           Close], False)"
proof -
  have s: "\<not> sendall_raises (connection (''GET /docs/ HTTP/1.1'' @ CRLF @ CRLF)) 0"
    by (simp add: connection_def)
  show ?thesis
    using handle_client_v1_send
            [OF trans [OF try_body_v1_get
                            [OF recv_connection decode_get_docs_slash parts_get_docs_slash]
                          dispatch_v1_docs_slash]]
          s docs_slash_isdir
    by simp
qed

section \<open>Where the code departs from its own intent\<close>

lemma decode_get_docs:
  "utf8_decode False (''GET /docs HTTP/1.1'' @ CRLF @ CRLF)
     = Some (ascii ''GET /docs HTTP/1.1'' @ [13, 10, 13, 10])"
  by (simp add: utf8_decode_def)

lemma parts_get_docs:
  "split_whitespace (first_line (ascii ''GET /docs HTTP/1.1'' @ [13, 10, 13, 10]))
     = ascii ''GET'' # ascii ''/docs'' # [ascii ''HTTP/1.1'']"
  by (simp add: split_whitespace_def isspace_def)

lemma unquote_docs: "unquote (ascii ''/docs'') = ascii ''/docs''"
  by (simp add: unquote_def)

lemma dispatch_v2_docs:
  "dispatch_v2 scenario_server scenario_host (ascii ''/docs'') =
     ([IsDir (ascii ''/srv/root/docs''), ListDir (ascii ''/srv/root/docs'')],
      Send (''HTTP/1.1 200 OK'' @ CRLF @ ''Server: SimplePythonWebServer'' @ CRLF
            @ ''Connection: close'' @ CRLF @ ''Content-Length: 68'' @ CRLF
            @ ''Content-Type: text/html'' @ CRLF @ CRLF
            @ ''<h1>'' @ [CHR 0xE7, CHR 0x9B, CHR 0xAE, CHR 0xE5, CHR 0xBD, CHR 0x95, CHR 0xE5,
                 CHR 0x88, CHR 0x97, CHR 0xE8, CHR 0xA1, CHR 0xA8, CHR 0xEF, CHR 0xBC, CHR 0x9A]
            @ ''/docs</h1><ul><li><a href='' @ [CHR 0x22] @ ''/docs/a.txt'' @ [CHR 0x22]
            @ ''>a.txt</a></li></ul>''))"
  by (simp add: dispatch_v2_def scenario_root host_eval path_eval list_directory_v2_def
        listing_html_def listing_item_def replace_backslash_def reply_def response_defs)

text \<open>
  C3. The extended variant builds the directory page as a \<^verbatim>\<open>str\<close> and
  \<^verbatim>\<open>create_response\<close> writes \<^verbatim>\<open>len(content)\<close>, the number of characters, into
  \<^verbatim>\<open>Content-Length\<close>, then sends the UTF-8 encoding. The heading holds five
  characters of three octets each, so for the request \<^verbatim>\<open>GET /docs\<close> the header
  says 68 while the body sent has 78 octets.
\<close>

theorem listing_content_length_counts_characters:
  "handle_client_v2 scenario_server scenario_host
     (connection (''GET /docs HTTP/1.1'' @ CRLF @ CRLF))
   = ([IsDir (ascii ''/srv/root/docs''), ListDir (ascii ''/srv/root/docs''),
       Sendall (''HTTP/1.1 200 OK'' @ CRLF @ ''Server: SimplePythonWebServer'' @ CRLF
            @ ''Connection: close'' @ CRLF @ ''Content-Length: 68'' @ CRLF
            @ ''Content-Type: text/html'' @ CRLF @ CRLF
            @ ''<h1>'' @ [CHR 0xE7, CHR 0x9B, CHR 0xAE, CHR 0xE5, CHR 0xBD, CHR 0x95, CHR 0xE5,
                 CHR 0x88, CHR 0x97, CHR 0xE8, CHR 0xA1, CHR 0xA8, CHR 0xEF, CHR 0xBC, CHR 0x9A]
            @ ''/docs</h1><ul><li><a href='' @ [CHR 0x22] @ ''/docs/a.txt'' @ [CHR 0x22]
            @ ''>a.txt</a></li></ul>''),
       Close], False)
   \<and> length (''<h1>'' @ [CHR 0xE7, CHR 0x9B, CHR 0xAE, CHR 0xE5, CHR 0xBD, CHR 0x95, CHR 0xE5,
                 CHR 0x88, CHR 0x97, CHR 0xE8, CHR 0xA1, CHR 0xA8, CHR 0xEF, CHR 0xBC, CHR 0x9A]
            @ ''/docs</h1><ul><li><a href='' @ [CHR 0x22] @ ''/docs/a.txt'' @ [CHR 0x22]
            @ ''>a.txt</a></li></ul>'') = 78"
proof -
  have s: "\<not> sendall_raises (connection (''GET /docs HTTP/1.1'' @ CRLF @ CRLF)) 0"
    by (simp add: connection_def)
  have t: "try_body_v2 scenario_server scenario_host
             (connection (''GET /docs HTTP/1.1'' @ CRLF @ CRLF))
           = dispatch_v2 scenario_server scenario_host (ascii ''/docs'')"
    using try_body_v2_get [OF recv_connection decode_get_docs parts_get_docs]
    by (simp only: unquote_docs)
  show ?thesis
    using handle_client_v2_send [OF trans [OF t dispatch_v2_docs]] s by simp
qed

lemma decode_get_sibling:
  "utf8_decode False (''GET /../rootevil/secret HTTP/1.1'' @ CRLF @ CRLF)
     = Some (ascii ''GET /../rootevil/secret HTTP/1.1'' @ [13, 10, 13, 10])"
  by (simp add: utf8_decode_def)

lemma parts_get_sibling:
  "split_whitespace (first_line (ascii ''GET /../rootevil/secret HTTP/1.1'' @ [13, 10, 13, 10]))
     = ascii ''GET'' # ascii ''/../rootevil/secret'' # [ascii ''HTTP/1.1'']"
  by (simp add: split_whitespace_def isspace_def)

lemma unquote_sibling: "unquote (ascii ''/../rootevil/secret'') = ascii ''/../rootevil/secret''"
  by (simp add: unquote_def)

lemma dispatch_v1_sibling:
  "dispatch_v1 scenario_server scenario_host (ascii ''/../rootevil/secret'') =
     ([IsFile (ascii ''/srv/root/../rootevil/secret''),
       Access (ascii ''/srv/root/../rootevil/secret''),
       Open (ascii ''/srv/root/../rootevil/secret'')],
      Send (''HTTP/1.1 200 OK'' @ CRLF @ ''Server: SimplePythonWebServer'' @ CRLF
            @ ''Connection: close'' @ CRLF @ ''Content-Length: 3'' @ CRLF
            @ ''Content-Type: text/plain'' @ CRLF @ CRLF @ ''top''))"
  by (simp add: dispatch_v1_def scenario_root host_eval path_eval reply_def
        create_response_v1_eq response_defs)

lemma dispatch_v2_sibling:
  "dispatch_v2 scenario_server scenario_host (ascii ''/../rootevil/secret'') =
     ([IsDir (ascii ''/srv/rootevil/secret''), IsFile (ascii ''/srv/rootevil/secret''),
       Access (ascii ''/srv/rootevil/secret''), Open (ascii ''/srv/rootevil/secret'')],
      Send (''HTTP/1.1 200 OK'' @ CRLF @ ''Server: SimplePythonWebServer'' @ CRLF
            @ ''Connection: close'' @ CRLF @ ''Content-Length: 3'' @ CRLF
            @ ''Content-Type: application/octet-stream'' @ CRLF @ CRLF @ ''top''))"
  by (simp add: dispatch_v2_def scenario_root host_eval path_eval download_extensions_def
        reply_def response_defs)

text \<open>
  C1. The containment test is \<^verbatim>\<open>abs_path.startswith(self.root_dir)\<close>, a prefix
  test on characters. With the root \<^verbatim>\<open>/srv/root\<close>, the request
  \<^verbatim>\<open>GET /../rootevil/secret\<close> normalises to \<^verbatim>\<open>/srv/rootevil/secret\<close>, which
  is outside the root and yet begins with its characters: both variants open the
  file and send its content with status 200 instead of answering 403.
\<close>

theorem sibling_directory_escapes_root:
  "root_dir scenario_server = ascii ''/srv/root''
   \<and> handle_client_v1 scenario_server scenario_host
         (connection (''GET /../rootevil/secret HTTP/1.1'' @ CRLF @ CRLF))
       = ([IsFile (ascii ''/srv/root/../rootevil/secret''),
           Access (ascii ''/srv/root/../rootevil/secret''),
           Open (ascii ''/srv/root/../rootevil/secret''),
           Sendall (''HTTP/1.1 200 OK'' @ CRLF @ ''Server: SimplePythonWebServer'' @ CRLF
             @ ''Connection: close'' @ CRLF @ ''Content-Length: 3'' @ CRLF
             @ ''Content-Type: text/plain'' @ CRLF @ CRLF @ ''top''),
           Close], False)
   \<and> handle_client_v2 scenario_server scenario_host
         (connection (''GET /../rootevil/secret HTTP/1.1'' @ CRLF @ CRLF))
       = ([IsDir (ascii ''/srv/rootevil/secret''), IsFile (ascii ''/srv/rootevil/secret''),
           Access (ascii ''/srv/rootevil/secret''), Open (ascii ''/srv/rootevil/secret''),
           Sendall (''HTTP/1.1 200 OK'' @ CRLF @ ''Server: SimplePythonWebServer'' @ CRLF
             @ ''Connection: close'' @ CRLF @ ''Content-Length: 3'' @ CRLF
             @ ''Content-Type: application/octet-stream'' @ CRLF @ CRLF @ ''top''),
           Close], False)"
proof -
  have s: "\<not> sendall_raises (connection (''GET /../rootevil/secret HTTP/1.1'' @ CRLF @ CRLF)) 0"
    by (simp add: connection_def)
  have t1: "try_body_v1 scenario_server scenario_host
              (connection (''GET /../rootevil/secret HTTP/1.1'' @ CRLF @ CRLF))
            = dispatch_v1 scenario_server scenario_host (ascii ''/../rootevil/secret'')"
    by (rule try_body_v1_get [OF recv_connection decode_get_sibling parts_get_sibling])
  have t2: "try_body_v2 scenario_server scenario_host
              (connection (''GET /../rootevil/secret HTTP/1.1'' @ CRLF @ CRLF))
            = dispatch_v2 scenario_server scenario_host (ascii ''/../rootevil/secret'')"
    using try_body_v2_get [OF recv_connection decode_get_sibling parts_get_sibling]
    by (simp only: unquote_sibling)
  show ?thesis
    using handle_client_v1_send [OF trans [OF t1 dispatch_v1_sibling]]
          handle_client_v2_send [OF trans [OF t2 dispatch_v2_sibling]] s scenario_root
    by simp
qed

section \<open>What the containment test and the length header do guarantee\<close>

lemma dispatch_v1_forbidden:
  assumes "path = (if path0 = ascii ''/'' then ascii ''/index.html'' else path0)"
    "\<not> startswith (abspath (getcwd h) (path_join (root_dir srv) (lstrip 47 path))) (root_dir srv)"
  shows "dispatch_v1 srv h path0 =
           ([], Send (''HTTP/1.1 403 Forbidden'' @ CRLF @ ''Server: SimplePythonWebServer'' @ CRLF
                      @ ''Connection: close'' @ CRLF @ CRLF))"
  unfolding dispatch_v1_def Let_def assms(1) [symmetric] create_response_v1_eq response_403
  using assms(2) by (simp add: reply_def)

lemma dispatch_v2_forbidden:
  assumes "path = (if path0 = ascii ''/'' then ascii ''/index.html'' else path0)"
    "\<not> startswith (abspath (getcwd h) (path_join (root_dir srv) (lstrip 47 path))) (root_dir srv)"
  shows "dispatch_v2 srv h path0 =
           ([], Send (''HTTP/1.1 403 Forbidden'' @ CRLF @ ''Server: SimplePythonWebServer'' @ CRLF
                      @ ''Connection: close'' @ CRLF @ CRLF))"
  unfolding dispatch_v2_def Let_def assms(1) [symmetric] response_403
  using assms(2) by (simp add: reply_def)

text \<open>
  A \<^verbatim>\<open>GET\<close> request whose path, joined onto the root and normalised, does not
  begin with the characters of the root is answered 403, and no call to the file
  system is made for it: the trace holds the response and the close only. In the
  minimal variant the path is the token as received, in the extended variant the
  percent-decoded token.
\<close>

theorem outside_prefix_gets_403:
  assumes "recv sock = Some received" "utf8_decode False received = Some request_data"
    "split_whitespace (first_line request_data) = ascii ''GET'' # raw_path # rest"
    "path1 = (if raw_path = ascii ''/'' then ascii ''/index.html'' else raw_path)"
    "path2 = (if unquote raw_path = ascii ''/'' then ascii ''/index.html'' else unquote raw_path)"
  shows "(\<not> startswith (abspath (getcwd h) (path_join (root_dir srv) (lstrip 47 path1)))
              (root_dir srv) \<longrightarrow>
          handle_client_v1 srv h sock =
            (if sendall_raises sock 0
             then except_clause_v1 sock 1
                    [SendallFailed (''HTTP/1.1 403 Forbidden'' @ CRLF
                       @ ''Server: SimplePythonWebServer'' @ CRLF @ ''Connection: close'' @ CRLF @ CRLF)]
             else ([Sendall (''HTTP/1.1 403 Forbidden'' @ CRLF
                       @ ''Server: SimplePythonWebServer'' @ CRLF @ ''Connection: close'' @ CRLF @ CRLF),
                    Close], False)))
       \<and> (\<not> startswith (abspath (getcwd h) (path_join (root_dir srv) (lstrip 47 path2)))
              (root_dir srv) \<longrightarrow>
          handle_client_v2 srv h sock =
            (if sendall_raises sock 0
             then except_clause_v2 sock 1
                    [SendallFailed (''HTTP/1.1 403 Forbidden'' @ CRLF
                       @ ''Server: SimplePythonWebServer'' @ CRLF @ ''Connection: close'' @ CRLF @ CRLF)]
             else ([Sendall (''HTTP/1.1 403 Forbidden'' @ CRLF
                       @ ''Server: SimplePythonWebServer'' @ CRLF @ ''Connection: close'' @ CRLF @ CRLF),
                    Close], False)))"
proof (intro conjI impI)
  assume o: "\<not> startswith (abspath (getcwd h) (path_join (root_dir srv) (lstrip 47 path1)))
               (root_dir srv)"
  have "try_body_v1 srv h sock =
          ([], Send (''HTTP/1.1 403 Forbidden'' @ CRLF @ ''Server: SimplePythonWebServer'' @ CRLF
                     @ ''Connection: close'' @ CRLF @ CRLF))"
    using try_body_v1_get [OF assms(1,2,3), of srv h] dispatch_v1_forbidden [OF assms(4) o]
    by simp
  from handle_client_v1_send [OF this]
  show "handle_client_v1 srv h sock =
            (if sendall_raises sock 0
             then except_clause_v1 sock 1
                    [SendallFailed (''HTTP/1.1 403 Forbidden'' @ CRLF
                       @ ''Server: SimplePythonWebServer'' @ CRLF @ ''Connection: close'' @ CRLF @ CRLF)]
             else ([Sendall (''HTTP/1.1 403 Forbidden'' @ CRLF
                       @ ''Server: SimplePythonWebServer'' @ CRLF @ ''Connection: close'' @ CRLF @ CRLF),
                    Close], False))"
    by simp
next
  assume o: "\<not> startswith (abspath (getcwd h) (path_join (root_dir srv) (lstrip 47 path2)))
               (root_dir srv)"
  have "try_body_v2 srv h sock =
          ([], Send (''HTTP/1.1 403 Forbidden'' @ CRLF @ ''Server: SimplePythonWebServer'' @ CRLF
                     @ ''Connection: close'' @ CRLF @ CRLF))"
    using try_body_v2_get [OF assms(1,2,3), of srv h] dispatch_v2_forbidden [OF assms(5) o]
    by simp
  from handle_client_v2_send [OF this]
  show "handle_client_v2 srv h sock =
            (if sendall_raises sock 0
             then except_clause_v2 sock 1
                    [SendallFailed (''HTTP/1.1 403 Forbidden'' @ CRLF
                       @ ''Server: SimplePythonWebServer'' @ CRLF @ ''Connection: close'' @ CRLF @ CRLF)]
             else ([Sendall (''HTTP/1.1 403 Forbidden'' @ CRLF
                       @ ''Server: SimplePythonWebServer'' @ CRLF @ ''Connection: close'' @ CRLF @ CRLF),
                    Close], False))"
    by simp
qed

lemma decode_get_passwd:
  "utf8_decode False (''GET /../../etc/passwd HTTP/1.1'' @ CRLF @ CRLF)
     = Some (ascii ''GET /../../etc/passwd HTTP/1.1'' @ [13, 10, 13, 10])"
  by (simp add: utf8_decode_def)

lemma parts_get_passwd:
  "split_whitespace (first_line (ascii ''GET /../../etc/passwd HTTP/1.1'' @ [13, 10, 13, 10]))
     = ascii ''GET'' # ascii ''/../../etc/passwd'' # [ascii ''HTTP/1.1'']"
  by (simp add: split_whitespace_def isspace_def)

lemma path1_passwd:
  "ascii ''/../../etc/passwd''
     = (if ascii ''/../../etc/passwd'' = ascii ''/'' then ascii ''/index.html''
        else ascii ''/../../etc/passwd'')"
  by simp

lemma path2_passwd:
  "ascii ''/../../etc/passwd''
     = (if unquote (ascii ''/../../etc/passwd'') = ascii ''/'' then ascii ''/index.html''
        else unquote (ascii ''/../../etc/passwd''))"
  by (simp add: unquote_def)

lemma passwd_outside:
  "\<not> startswith (abspath (getcwd scenario_host)
                    (path_join (root_dir scenario_server) (lstrip 47 (ascii ''/../../etc/passwd''))))
        (root_dir scenario_server)"
  by (simp add: scenario_root path_eval scenario_host_def)

theorem outside_prefix_gets_403_witness:
  "recv (connection (''GET /../../etc/passwd HTTP/1.1'' @ CRLF @ CRLF))
     = Some (''GET /../../etc/passwd HTTP/1.1'' @ CRLF @ CRLF)
   \<and> utf8_decode False (''GET /../../etc/passwd HTTP/1.1'' @ CRLF @ CRLF)
       = Some (ascii ''GET /../../etc/passwd HTTP/1.1'' @ [13, 10, 13, 10])
   \<and> split_whitespace (first_line (ascii ''GET /../../etc/passwd HTTP/1.1'' @ [13, 10, 13, 10]))
       = ascii ''GET'' # ascii ''/../../etc/passwd'' # [ascii ''HTTP/1.1'']
   \<and> \<not> startswith (abspath (getcwd scenario_host)
                      (path_join (root_dir scenario_server)
                         (lstrip 47 (ascii ''/../../etc/passwd''))))
          (root_dir scenario_server)
   \<and> handle_client_v1 scenario_server scenario_host
         (connection (''GET /../../etc/passwd HTTP/1.1'' @ CRLF @ CRLF))
       = ([Sendall (''HTTP/1.1 403 Forbidden'' @ CRLF
             @ ''Server: SimplePythonWebServer'' @ CRLF @ ''Connection: close'' @ CRLF @ CRLF),
           Close], False)
   \<and> handle_client_v2 scenario_server scenario_host
         (connection (''GET /../../etc/passwd HTTP/1.1'' @ CRLF @ CRLF))
       = ([Sendall (''HTTP/1.1 403 Forbidden'' @ CRLF
             @ ''Server: SimplePythonWebServer'' @ CRLF @ ''Connection: close'' @ CRLF @ CRLF),
           Close], False)"
proof -
  have s: "\<not> sendall_raises (connection (''GET /../../etc/passwd HTTP/1.1'' @ CRLF @ CRLF)) 0"
    by (simp add: connection_def)
  note t = outside_prefix_gets_403
             [OF recv_connection decode_get_passwd parts_get_passwd path1_passwd path2_passwd,
              of scenario_host scenario_server]
  show ?thesis
    using recv_connection decode_get_passwd parts_get_passwd passwd_outside s t by simp
qed

text \<open>
  For a non-empty \<^verbatim>\<open>bytes\<close> body, with a status message and a content type in
  ASCII and no extra headers, \<^verbatim>\<open>create_response\<close> of either variant writes a
  \<^verbatim>\<open>Content-Length\<close> header holding the number of octets of the body, then a
  \<^verbatim>\<open>Content-Type\<close> header, and sends the body unchanged after the blank line.
\<close>

theorem bytes_body_content_length:
  assumes "b \<noteq> []" "list_all (\<lambda>c::nat. c < 0x80) status_message"
    "list_all (\<lambda>c::nat. c < 0x80) content_type"
  shows "create_response_v2 status_code status_message (Bytes b) content_type [] =
           Some (''HTTP/1.1 '' @ map char_of (str_of_nat status_code) @ '' ''
                 @ map char_of status_message @ CRLF
                 @ ''Server: SimplePythonWebServer'' @ CRLF @ ''Connection: close'' @ CRLF
                 @ ''Content-Length: '' @ map char_of (str_of_nat (length b)) @ CRLF
                 @ ''Content-Type: '' @ map char_of content_type @ CRLF @ CRLF @ b)
       \<and> create_response_v1 status_code status_message (Bytes b) content_type =
           create_response_v2 status_code status_message (Bytes b) content_type []"
proof -
  have m: "utf8_encode status_message = Some (map char_of status_message)"
    by (rule utf8_encode_ascii [OF assms(2)])
  have c: "utf8_encode content_type = Some (map char_of content_type)"
    by (rule utf8_encode_ascii [OF assms(3)])
  show ?thesis
    using assms(1)
    by (simp add: create_response_v1_eq create_response_v2_def response_headers_def truthy_def
          content_len_def content_bytes_def header_line_def Let_def utf8_encode_append
          utf8_encode_ascii [OF str_of_nat_ascii] m c utf8_encode_char_def char_of_eq_iff)
qed

theorem bytes_body_content_length_witness:
  "''<h1>404 Not Found</h1>'' \<noteq> []
   \<and> list_all (\<lambda>c::nat. c < 0x80) (ascii ''Not Found'')
   \<and> list_all (\<lambda>c::nat. c < 0x80) (ascii ''text/html'')
   \<and> create_response_v2 404 (ascii ''Not Found'') (Bytes ''<h1>404 Not Found</h1>'')
         (ascii ''text/html'') [] =
       Some (''HTTP/1.1 404 Not Found'' @ CRLF @ ''Server: SimplePythonWebServer'' @ CRLF
             @ ''Connection: close'' @ CRLF @ ''Content-Length: 22'' @ CRLF
             @ ''Content-Type: text/html'' @ CRLF @ CRLF @ ''<h1>404 Not Found</h1>'')"
proof -
  have n: "''<h1>404 Not Found</h1>'' \<noteq> []" by simp
  have m: "list_all (\<lambda>c::nat. c < 0x80) (ascii ''Not Found'')" by simp
  have c: "list_all (\<lambda>c::nat. c < 0x80) (ascii ''text/html'')" by simp
  show ?thesis
    using n m c bytes_body_content_length [OF n m c, of 404]
    by (simp add: str_of_nat.simps char_of_eq_iff)
qed

end
